theory Spec2Isabelle
  imports Complex_Main
begin

section \<open>Values: NumPy floats and Python scalars\<close>

text \<open>
  The callback \<open>update_output\<close> of \<open>src/main.py\<close> receives eight numbers from the form and
  evaluates a handful of vectorised NumPy expressions over a lift-coefficient sweep.
  Two kinds of arithmetic occur in it and they fail differently:
  \<^item> operations between Python scalars (\<open>w / (0.5 * density * area)\<close>): division by zero
    raises \<open>ZeroDivisionError\<close>;
  \<^item> operations in which a NumPy value takes part: nothing is raised, division by zero gives
    an infinity or NaN, \<open>np.sqrt\<close> and \<open>np.arcsin\<close> outside their domain give NaN (NumPy
    only prints a RuntimeWarning).

  A NumPy float is modelled as a real number or one of the three IEEE special values.
  Finite values are exact reals: rounding, overflow and underflow of binary64 are not
  modelled, and neither is the sign of zero (a zero divisor counts as \<open>+0.0\<close>, which is the
  zero that the sweep's first sample \<open>c_l = 0.0\<close> produces).
\<close>

datatype npfloat = Fin real | PInf | NInf | NaN

type_synonym ndarray = "npfloat list"

datatype py_error = ZeroDivisionError

fun np_neg :: "npfloat \<Rightarrow> npfloat" where
  "np_neg (Fin a) = Fin (- a)"
| "np_neg PInf = NInf"
| "np_neg NInf = PInf"
| "np_neg NaN = NaN"

fun np_add :: "npfloat \<Rightarrow> npfloat \<Rightarrow> npfloat" where
  "np_add (Fin a) (Fin b) = Fin (a + b)"
| "np_add (Fin a) PInf = PInf"
| "np_add (Fin a) NInf = NInf"
| "np_add PInf (Fin b) = PInf"
| "np_add PInf PInf = PInf"
| "np_add PInf NInf = NaN"
| "np_add NInf (Fin b) = NInf"
| "np_add NInf NInf = NInf"
| "np_add NInf PInf = NaN"
| "np_add NaN y = NaN"
| "np_add x NaN = NaN"

definition np_sub :: "npfloat \<Rightarrow> npfloat \<Rightarrow> npfloat" where
  "np_sub x y = np_add x (np_neg y)"

text \<open>An infinity of the sign of a non-zero real; NaN at zero (\<open>0 * inf\<close>).\<close>

definition inf_of_sign :: "real \<Rightarrow> npfloat" where
  "inf_of_sign a = (if a = 0 then NaN else if 0 < a then PInf else NInf)"

fun np_mul :: "npfloat \<Rightarrow> npfloat \<Rightarrow> npfloat" where
  "np_mul (Fin a) (Fin b) = Fin (a * b)"
| "np_mul (Fin a) PInf = inf_of_sign a"
| "np_mul (Fin a) NInf = inf_of_sign (- a)"
| "np_mul PInf (Fin b) = inf_of_sign b"
| "np_mul NInf (Fin b) = inf_of_sign (- b)"
| "np_mul PInf PInf = PInf"
| "np_mul PInf NInf = NInf"
| "np_mul NInf PInf = NInf"
| "np_mul NInf NInf = PInf"
| "np_mul NaN y = NaN"
| "np_mul x NaN = NaN"

fun np_div :: "npfloat \<Rightarrow> npfloat \<Rightarrow> npfloat" where
  "np_div (Fin a) (Fin b) = (if b = 0 then inf_of_sign a else Fin (a / b))"
| "np_div (Fin a) PInf = Fin 0"
| "np_div (Fin a) NInf = Fin 0"
| "np_div PInf (Fin b) = (if 0 \<le> b then PInf else NInf)"
| "np_div NInf (Fin b) = (if 0 \<le> b then NInf else PInf)"
| "np_div PInf PInf = NaN"
| "np_div PInf NInf = NaN"
| "np_div NInf PInf = NaN"
| "np_div NInf NInf = NaN"
| "np_div NaN y = NaN"
| "np_div x NaN = NaN"

fun np_sqrt :: "npfloat \<Rightarrow> npfloat" where
  "np_sqrt (Fin a) = (if a < 0 then NaN else Fin (sqrt a))"
| "np_sqrt PInf = PInf"
| "np_sqrt NInf = NaN"
| "np_sqrt NaN = NaN"

text \<open>\<open>x ** n\<close> for the integer exponents 2, 3 and 4 of the source.\<close>

fun np_power :: "npfloat \<Rightarrow> nat \<Rightarrow> npfloat" where
  "np_power (Fin a) n = Fin (a ^ n)"
| "np_power PInf n = (if n = 0 then Fin 1 else PInf)"
| "np_power NInf n = (if n = 0 then Fin 1 else if even n then PInf else NInf)"
| "np_power NaN n = (if n = 0 then Fin 1 else NaN)"

text \<open>\<open>x ** 1.5\<close>: C's \<open>pow\<close> with a positive non-integer exponent.\<close>

fun np_pow_1_5 :: "npfloat \<Rightarrow> npfloat" where
  "np_pow_1_5 (Fin a) = (if a < 0 then NaN else if a = 0 then Fin 0 else Fin (a powr (3 / 2)))"
| "np_pow_1_5 PInf = PInf"
| "np_pow_1_5 NInf = PInf"
| "np_pow_1_5 NaN = NaN"

fun np_arcsin :: "npfloat \<Rightarrow> npfloat" where
  "np_arcsin (Fin a) = (if \<bar>a\<bar> \<le> 1 then Fin (arcsin a) else NaN)"
| "np_arcsin PInf = NaN"
| "np_arcsin NInf = NaN"
| "np_arcsin NaN = NaN"

text \<open>IEEE comparison: every comparison with NaN is false.\<close>

fun np_less :: "npfloat \<Rightarrow> npfloat \<Rightarrow> bool" where
  "np_less (Fin a) (Fin b) = (a < b)"
| "np_less (Fin a) PInf = True"
| "np_less (Fin a) NInf = False"
| "np_less PInf y = False"
| "np_less NInf (Fin b) = True"
| "np_less NInf PInf = True"
| "np_less NInf NInf = False"
| "np_less NInf NaN = False"
| "np_less (Fin a) NaN = False"
| "np_less NaN y = False"

fun np_le :: "npfloat \<Rightarrow> npfloat \<Rightarrow> bool" where
  "np_le NaN y = False"
| "np_le x NaN = False"
| "np_le x y = (x = y \<or> np_less x y)"

text \<open>Python's \<open>/\<close> between two scalars.\<close>

definition py_truediv :: "real \<Rightarrow> real \<Rightarrow> py_error + real" where
  "py_truediv a b = (if b = 0 then Inl ZeroDivisionError else Inr (a / b))"

text \<open>
  \<open>np.linspace(start, stop, num)\<close>: \<open>arange(num) * step + start\<close> with
  \<open>step = (stop - start) / (num - 1)\<close>; NumPy then overwrites the last element by \<open>stop\<close>,
  which over the reals is the value it already has.
\<close>

definition linspace :: "real \<Rightarrow> real \<Rightarrow> nat \<Rightarrow> ndarray" where
  "linspace start stop num =
     map (\<lambda>i. Fin (real i * ((stop - start) / real (num - 1)) + start)) [0..<num]"

text \<open>A list comprehension over a function that may raise stops at the first exception.\<close>

fun comprehension :: "('a \<Rightarrow> py_error + 'b) \<Rightarrow> 'a list \<Rightarrow> py_error + 'b list" where
  "comprehension f [] = Inr []"
| "comprehension f (x # xs) =
     (case f x of
        Inl e \<Rightarrow> Inl e
      | Inr y \<Rightarrow> (case comprehension f xs of Inl e \<Rightarrow> Inl e | Inr ys \<Rightarrow> Inr (y # ys)))"

section \<open>The callback\<close>

text \<open>The eight form values, under the parameter names of \<open>update_output\<close>.\<close>

record aircraft_config =
  c_d0 :: real
  AR :: real
  e0 :: real
  w :: real
  bhp :: real
  area :: real
  prop_diameter :: real
  rpm :: real

subsection \<open>Constants of \<open>update_output\<close> (lines 98 to 109)\<close>

definition density :: real where
  "density = 2377 / 1000 * (1 / 10 ^ 3)"

definition density_5000ft :: real where
  "density_5000ft = 2048 / 1000 * (1 / 10 ^ 3)"

definition density_10000ft :: real where
  "density_10000ft = 1756 / 1000 * (1 / 10 ^ 3)"

definition density_15000ft :: real where
  "density_15000ft = 1496 / 1000 * (1 / 10 ^ 3)"

definition density_ratios :: "real list" where
  "density_ratios = [1, 86159 / 100000, 738746 / 1000000, 62936 / 100000]"

definition c_l :: ndarray where
  "c_l = linspace 0 (13182 / 10000) 20"

definition rpms :: "real list" where
  "rpms = [density, density_5000ft, density_10000ft, density_15000ft]"

subsection \<open>\<open>calculate_values\<close>, one definition per assignment (lines 113 to 122)\<close>

text \<open>
  The parameters \<open>cl\<close> and \<open>bhp_w\<close> are the variables \<open>c_l\<close> and \<open>bhp\<close> (after
  \<open>bhp *= 550\<close>) that the nested function captures; \<open>dens\<close> is its parameter \<open>density\<close>.
\<close>

definition c_d_of :: "aircraft_config \<Rightarrow> ndarray \<Rightarrow> ndarray" where
  "c_d_of cfg cl =
     map (\<lambda>x. np_add (Fin (c_d0 cfg))
                 (np_div (np_power x 2) (Fin (314 / 100 * e0 cfg * AR cfg)))) cl"

definition v_of :: "aircraft_config \<Rightarrow> ndarray \<Rightarrow> real \<Rightarrow> py_error + ndarray" where
  "v_of cfg cl dens =
     (case py_truediv (w cfg) (5 / 10 * dens * area cfg) of
        Inl e \<Rightarrow> Inl e
      | Inr q \<Rightarrow> Inr (map (\<lambda>x. np_mul (np_sqrt (Fin q)) (np_div (Fin 1) (np_sqrt x))) cl))"

definition d_of :: "aircraft_config \<Rightarrow> real \<Rightarrow> ndarray \<Rightarrow> ndarray" where
  "d_of cfg dens v = map (\<lambda>x. np_mul (Fin (5 / 10 * dens * area cfg)) (np_power x 2)) v"

definition J_of :: "aircraft_config \<Rightarrow> ndarray \<Rightarrow> ndarray" where
  "J_of cfg v = map (\<lambda>x. np_div x (Fin (rpm cfg / 60 * prop_diameter cfg))) v"

definition prop_efficiency_at :: "npfloat \<Rightarrow> npfloat" where
  "prop_efficiency_at J =
     np_sub
       (np_add
          (np_sub
             (np_add (np_mul (Fin (- (1206 / 100))) (np_power J 4))
                     (np_mul (Fin (2719 / 100)) (np_power J 3)))
             (np_mul (Fin (2308 / 100)) (np_power J 2)))
          (np_mul (Fin (9281 / 1000)) J))
       (Fin (8122 / 10000))"

definition prop_efficiency_of :: "ndarray \<Rightarrow> ndarray" where
  "prop_efficiency_of J = map prop_efficiency_at J"

definition p_req_of ::
  "aircraft_config \<Rightarrow> ndarray \<Rightarrow> real \<Rightarrow> ndarray \<Rightarrow> py_error + ndarray" where
  "p_req_of cfg cl dens c_d =
     (case py_truediv (2 * w cfg) (area cfg * dens) of
        Inl e \<Rightarrow> Inl e
      | Inr q \<Rightarrow>
          Inr (map2 (\<lambda>cd x. np_mul (np_mul (Fin (w cfg)) (np_sqrt (Fin q)))
                               (np_div cd (np_pow_1_5 x))) c_d cl))"

definition p_av_of :: "real \<Rightarrow> ndarray \<Rightarrow> ndarray" where
  "p_av_of shp prop_efficiency = map (\<lambda>e. np_mul (Fin shp) e) prop_efficiency"

definition roc_of :: "aircraft_config \<Rightarrow> ndarray \<Rightarrow> ndarray \<Rightarrow> ndarray" where
  "roc_of cfg p_av p_req = map2 (\<lambda>a r. np_div (np_sub a r) (Fin (w cfg))) p_av p_req"

definition climb_angle_of :: "ndarray \<Rightarrow> ndarray \<Rightarrow> ndarray" where
  "climb_angle_of roc v = map2 (\<lambda>r x. np_arcsin (np_div r x)) roc v"

definition calculate_values ::
  "aircraft_config \<Rightarrow> ndarray \<Rightarrow> real \<Rightarrow> real \<Rightarrow> real
     \<Rightarrow> py_error + (ndarray \<times> ndarray \<times> ndarray)" where
  "calculate_values cfg cl bhp_w dens density_ratio =
     (let c_d = c_d_of cfg cl in
      (case v_of cfg cl dens of
         Inl e \<Rightarrow> Inl e
       | Inr v \<Rightarrow>
           (let d = d_of cfg dens v;
                J = J_of cfg v;
                prop_efficiency = prop_efficiency_of J
            in (case p_req_of cfg cl dens c_d of
                  Inl e \<Rightarrow> Inl e
                | Inr p_req \<Rightarrow>
                    (let shp = bhp_w * density_ratio;
                         p_av = p_av_of shp prop_efficiency;
                         roc = roc_of cfg p_av p_req;
                         climb_angle = climb_angle_of roc v
                     in Inr (v, roc, climb_angle))))))"

subsection \<open>The numeric part of \<open>update_output\<close> (lines 98 to 126)\<close>

text \<open>
  \<open>compute\<close> is the list \<open>results\<close> of the source: one triple
  \<open>(v, roc, climb_angle)\<close> per altitude, or the exception that stopped it.
\<close>

definition compute :: "aircraft_config \<Rightarrow> py_error + (ndarray \<times> ndarray \<times> ndarray) list" where
  "compute cfg =
     (let bhp_w = bhp cfg * 550
      in comprehension (\<lambda>(dens, ratio). calculate_values cfg c_l bhp_w dens ratio)
           (zip rpms density_ratios))"

text \<open>The local variable \<open>p_av\<close> of \<open>calculate_values\<close>, as \<open>update_output\<close> reaches it.\<close>

definition p_av_series :: "aircraft_config \<Rightarrow> real \<Rightarrow> real \<Rightarrow> py_error + ndarray" where
  "p_av_series cfg dens density_ratio =
     (case v_of cfg c_l dens of
        Inl e \<Rightarrow> Inl e
      | Inr v \<Rightarrow>
          Inr (p_av_of (bhp cfg * 550 * density_ratio) (prop_efficiency_of (J_of cfg v))))"

subsection \<open>The plots (lines 129 to 173)\<close>

text \<open>
  Of each \<open>dcc.Graph\<close> the model keeps what depends on the computation: which of the two
  plots it is, the loop index in its id, the altitude in its title and the two data series.
\<close>

datatype plot_kind = RocPlot | ClimbAnglePlot

record graph =
  kind :: plot_kind
  plot_index :: nat
  altitude :: nat
  scatter_x :: ndarray
  scatter_y :: ndarray

datatype callback_output = EmptyString | Div "graph list"

definition altitudes :: "nat list" where
  "altitudes = [0, 5000, 10000, 15000]"

fun plots_of :: "nat \<Rightarrow> (nat \<times> real \<times> ndarray \<times> ndarray \<times> ndarray) list \<Rightarrow> graph list" where
  "plots_of i [] = []"
| "plots_of i ((alt, density_ratio, v, roc, climb_angle) # rest) =
     \<lparr>kind = RocPlot, plot_index = i, altitude = alt, scatter_x = v, scatter_y = roc\<rparr>
     # \<lparr>kind = ClimbAnglePlot, plot_index = i, altitude = alt, scatter_x = v, scatter_y = climb_angle\<rparr>
     # plots_of (Suc i) rest"

definition update_output :: "nat \<Rightarrow> aircraft_config \<Rightarrow> py_error + callback_output" where
  "update_output n_clicks cfg =
     (if n_clicks = 0 then Inr EmptyString
      else case compute cfg of
             Inl e \<Rightarrow> Inl e
           | Inr results \<Rightarrow> Inr (Div (plots_of 0 (zip altitudes (zip density_ratios results)))))"

subsection \<open>Configurations\<close>

text \<open>The default values of the form, which are the specification's reference scenario.\<close>

definition default_config :: aircraft_config where
  "default_config =
     \<lparr>c_d0 = 317 / 10000, AR = 571 / 100, e0 = 6 / 10, w = 2400, bhp = 180, area = 170,
      prop_diameter = 73 / 12, rpm = 2700\<rparr>"

text \<open>The invariants that the specification states for an \<open>AircraftConfig\<close>.\<close>

definition valid_config :: "aircraft_config \<Rightarrow> bool" where
  "valid_config cfg \<longleftrightarrow>
     0 < c_d0 cfg \<and> 0 < AR cfg \<and> 0 < e0 cfg \<and> e0 cfg \<le> 1 \<and> 0 < w cfg \<and> 0 < bhp cfg \<and>
     0 < area cfg \<and> 0 < prop_diameter cfg \<and> 0 < rpm cfg"

subsection \<open>The same computation, sample by sample\<close>

text \<open>
  Every array operation of \<open>calculate_values\<close> is elementwise, so each result array is a
  map over the sweep. The functions below are the per-sample expressions, for the case in
  which the two scalar divisions do not raise; the lemmas \<open>calculate_values_Inr\<close> and
  \<open>compute_Inr\<close> prove that the code computes exactly them.
\<close>

definition v_at :: "aircraft_config \<Rightarrow> real \<Rightarrow> npfloat \<Rightarrow> npfloat" where
  "v_at cfg dens x =
     np_mul (np_sqrt (Fin (w cfg / (5 / 10 * dens * area cfg)))) (np_div (Fin 1) (np_sqrt x))"

definition c_d_at :: "aircraft_config \<Rightarrow> npfloat \<Rightarrow> npfloat" where
  "c_d_at cfg x =
     np_add (Fin (c_d0 cfg)) (np_div (np_power x 2) (Fin (314 / 100 * e0 cfg * AR cfg)))"

definition J_at :: "aircraft_config \<Rightarrow> real \<Rightarrow> npfloat \<Rightarrow> npfloat" where
  "J_at cfg dens x = np_div (v_at cfg dens x) (Fin (rpm cfg / 60 * prop_diameter cfg))"

definition p_req_at :: "aircraft_config \<Rightarrow> real \<Rightarrow> npfloat \<Rightarrow> npfloat" where
  "p_req_at cfg dens x =
     np_mul (np_mul (Fin (w cfg)) (np_sqrt (Fin (2 * w cfg / (area cfg * dens)))))
       (np_div (c_d_at cfg x) (np_pow_1_5 x))"

definition p_av_at :: "aircraft_config \<Rightarrow> real \<Rightarrow> real \<Rightarrow> npfloat \<Rightarrow> npfloat" where
  "p_av_at cfg shp dens x = np_mul (Fin shp) (prop_efficiency_at (J_at cfg dens x))"

definition roc_at :: "aircraft_config \<Rightarrow> real \<Rightarrow> real \<Rightarrow> npfloat \<Rightarrow> npfloat" where
  "roc_at cfg shp dens x =
     np_div (np_sub (p_av_at cfg shp dens x) (p_req_at cfg dens x)) (Fin (w cfg))"

definition climb_angle_at :: "aircraft_config \<Rightarrow> real \<Rightarrow> real \<Rightarrow> npfloat \<Rightarrow> npfloat" where
  "climb_angle_at cfg shp dens x = np_arcsin (np_div (roc_at cfg shp dens x) (v_at cfg dens x))"

text \<open>The triple \<open>(v, roc, climb_angle)\<close> of one altitude band \<open>(density, density_ratio)\<close>.\<close>

definition series_at :: "aircraft_config \<Rightarrow> real \<times> real \<Rightarrow> ndarray \<times> ndarray \<times> ndarray" where
  "series_at cfg band =
     (map (v_at cfg (fst band)) c_l,
      map (roc_at cfg (bhp cfg * 550 * snd band) (fst band)) c_l,
      map (climb_angle_at cfg (bhp cfg * 550 * snd band) (fst band)) c_l)"

text \<open>The step of the sweep and the quartic of line 117, on finite values.\<close>

definition cl_step :: real where
  "cl_step = 13182 / 10000 / 19"

definition eta_poly :: "real \<Rightarrow> real" where
  "eta_poly j = - (1206 / 100) * j ^ 4 + 2719 / 100 * j ^ 3 - 2308 / 100 * j ^ 2
                 + 9281 / 1000 * j - 8122 / 10000"

text \<open>
  The quotient \<open>w / (0.5 * density * area)\<close> of line 114 for the default values at sea
  level; \<open>2 * w / (area * density)\<close> of line 118 is the same number.
\<close>

definition ref_q :: real where
  "ref_q = w default_config / (5 / 10 * density * area default_config)"

section \<open>The code computes the per-sample expressions\<close>

lemma length_c_l: "length c_l = 20"
  by (simp add: c_l_def linspace_def)

lemma c_l_nth: "i < 20 \<Longrightarrow> c_l ! i = Fin (real i * (13182 / 10000 / 19))"
  by (simp add: c_l_def linspace_def)

lemma comprehension_Inr:
  "(\<And>x. x \<in> set xs \<Longrightarrow> f x = Inr (g x)) \<Longrightarrow> comprehension f xs = Inr (map g xs)"
  by (induction xs) simp_all

lemma map2_same: "map2 f (map g xs) (map h xs) = map (\<lambda>x. f (g x) (h x)) xs"
  by (induction xs) simp_all

lemma map2_left: "map2 f (map g xs) xs = map (\<lambda>x. f (g x) x) xs"
  by (induction xs) simp_all

lemma c_d_of_map: "c_d_of cfg cl = map (c_d_at cfg) cl"
  by (simp add: c_d_of_def c_d_at_def)

lemma v_of_Inr:
  "area cfg \<noteq> 0 \<Longrightarrow> dens \<noteq> 0 \<Longrightarrow> v_of cfg cl dens = Inr (map (v_at cfg dens) cl)"
  by (simp add: v_of_def py_truediv_def v_at_def)

lemma v_of_Inl: "area cfg = 0 \<Longrightarrow> v_of cfg cl dens = Inl ZeroDivisionError"
  by (simp add: v_of_def py_truediv_def)

lemma J_of_map: "J_of cfg (map (v_at cfg dens) cl) = map (J_at cfg dens) cl"
  by (simp add: J_of_def J_at_def)

lemma p_req_of_Inr:
  "area cfg \<noteq> 0 \<Longrightarrow> dens \<noteq> 0 \<Longrightarrow>
   p_req_of cfg cl dens (c_d_of cfg cl) = Inr (map (p_req_at cfg dens) cl)"
  by (simp add: p_req_of_def py_truediv_def c_d_of_map map2_left p_req_at_def)

lemma p_av_of_map:
  "p_av_of shp (prop_efficiency_of (map (J_at cfg dens) cl)) = map (p_av_at cfg shp dens) cl"
  by (simp add: p_av_of_def prop_efficiency_of_def p_av_at_def)

lemma roc_of_map:
  "roc_of cfg (map (p_av_at cfg shp dens) cl) (map (p_req_at cfg dens) cl)
     = map (roc_at cfg shp dens) cl"
  by (simp add: roc_of_def map2_same roc_at_def)

lemma climb_angle_of_map:
  "climb_angle_of (map (roc_at cfg shp dens) cl) (map (v_at cfg dens) cl)
     = map (climb_angle_at cfg shp dens) cl"
  by (simp add: climb_angle_of_def map2_same climb_angle_at_def)

lemma calculate_values_Inr:
  "area cfg \<noteq> 0 \<Longrightarrow> dens \<noteq> 0 \<Longrightarrow>
   calculate_values cfg cl bhp_w dens ratio =
     Inr (map (v_at cfg dens) cl,
          map (roc_at cfg (bhp_w * ratio) dens) cl,
          map (climb_angle_at cfg (bhp_w * ratio) dens) cl)"
  by (simp add: calculate_values_def Let_def v_of_Inr p_req_of_Inr J_of_map p_av_of_map
      roc_of_map climb_angle_of_map)

lemma calculate_values_Inl:
  "area cfg = 0 \<Longrightarrow> calculate_values cfg cl bhp_w dens ratio = Inl ZeroDivisionError"
  by (simp add: calculate_values_def Let_def v_of_Inl)

lemma rpms_pos: "d \<in> set rpms \<Longrightarrow> 0 < d"
  by (auto simp: rpms_def density_def density_5000ft_def density_10000ft_def density_15000ft_def)

lemma compute_Inr:
  assumes "area cfg \<noteq> 0"
  shows "compute cfg = Inr (map (series_at cfg) (zip rpms density_ratios))"
proof -
  have "comprehension (\<lambda>(dens, ratio). calculate_values cfg c_l (bhp cfg * 550) dens ratio)
          (zip rpms density_ratios) = Inr (map (series_at cfg) (zip rpms density_ratios))"
  proof (rule comprehension_Inr)
    fix b assume "b \<in> set (zip rpms density_ratios)"
    then have "fst b \<in> set rpms"
      using set_zip_leftD [of "fst b" "snd b" rpms density_ratios] by simp
    then have "fst b \<noteq> 0" using rpms_pos by fastforce
    then show "(case b of (dens, ratio) \<Rightarrow> calculate_values cfg c_l (bhp cfg * 550) dens ratio)
                 = Inr (series_at cfg b)"
      using assms by (cases b) (simp add: calculate_values_Inr series_at_def)
  qed
  then show ?thesis by (simp add: compute_def)
qed

lemma compute_Inl: "area cfg = 0 \<Longrightarrow> compute cfg = Inl ZeroDivisionError"
  by (simp add: compute_def rpms_def density_ratios_def calculate_values_Inl)

lemma bands: "zip rpms density_ratios =
  [(density, 1), (density_5000ft, 86159 / 100000), (density_10000ft, 738746 / 1000000),
   (density_15000ft, 62936 / 100000)]"
  by (simp add: rpms_def density_ratios_def)

section \<open>Samples of the sweep\<close>

lemma c_l_nth': "i < 20 \<Longrightarrow> c_l ! i = Fin (real i * cl_step)"
  by (simp add: c_l_nth cl_step_def)

lemma cl_step_pos: "0 < cl_step" by (simp add: cl_step_def)

lemma length_rpms: "length rpms = 4"
  by (simp add: rpms_def)

lemma length_density_ratios: "length density_ratios = 4"
  by (simp add: density_ratios_def)

lemma band_nth: "k < 4 \<Longrightarrow> zip rpms density_ratios ! k = (rpms ! k, density_ratios ! k)"
  by (simp add: length_rpms length_density_ratios)

lemma rpms_nth_pos: "k < 4 \<Longrightarrow> 0 < rpms ! k"
  by (rule rpms_pos) (simp add: length_rpms)

lemma half_density_area_pos:
  "0 < w cfg \<Longrightarrow> 0 < area cfg \<Longrightarrow> 0 < dens \<Longrightarrow> 0 < w cfg / (5 / 10 * dens * area cfg)"
  by (intro divide_pos_pos mult_pos_pos) simp_all

lemma np_velocity_finite:
  "0 \<le> q \<Longrightarrow> 0 < c \<Longrightarrow>
   np_mul (np_sqrt (Fin q)) (np_div (Fin 1) (np_sqrt (Fin c))) = Fin (sqrt q * (1 / sqrt c))"
  by simp

lemma np_velocity_zero:
  "0 < q \<Longrightarrow> np_mul (np_sqrt (Fin q)) (np_div (Fin 1) (np_sqrt (Fin 0))) = PInf"
  by (simp add: inf_of_sign_def)

lemma compute_nth:
  assumes "area cfg \<noteq> 0" "k < 4"
  shows "\<exists>res. compute cfg = Inr res \<and> length res = 4 \<and>
           res ! k = (map (v_at cfg (rpms ! k)) c_l,
                      map (roc_at cfg (bhp cfg * 550 * density_ratios ! k) (rpms ! k)) c_l,
                      map (climb_angle_at cfg (bhp cfg * 550 * density_ratios ! k) (rpms ! k)) c_l)"
  using assms by (simp add: compute_Inr length_rpms length_density_ratios band_nth series_at_def)

lemma v_at_pos:
  assumes "0 < w cfg" "0 < area cfg" "0 < dens" "0 < c"
  shows "v_at cfg dens (Fin c) = Fin (sqrt (w cfg / (5 / 10 * dens * area cfg)) * (1 / sqrt c))"
  unfolding v_at_def
  using half_density_area_pos [OF assms(1-3)] assms(4) by (intro np_velocity_finite) simp_all

lemma v_at_zero:
  assumes "0 < w cfg" "0 < area cfg" "0 < dens"
  shows "v_at cfg dens (Fin 0) = PInf"
  unfolding v_at_def
  using half_density_area_pos [OF assms] by (rule np_velocity_zero)

lemma sqrt_scale: "0 < a \<Longrightarrow> 0 < c \<Longrightarrow> sqrt a * (1 / sqrt c) = sqrt (a / c)"
  by (simp add: real_sqrt_divide)

lemma v_real_pos:
  assumes "0 < (a::real)" "0 < c"
  shows "0 < sqrt a * (1 / sqrt c)"
  using assms by simp

lemma v_real_decreasing:
  assumes "0 < (a::real)" "0 < c" "c < c'"
  shows "sqrt a * (1 / sqrt c') < sqrt a * (1 / sqrt c)"
proof -
  have "sqrt c < sqrt c'" using assms by simp
  moreover have "0 < sqrt c" using assms by simp
  ultimately have "1 / sqrt c' < 1 / sqrt c" by (simp add: frac_less2)
  moreover have "0 < sqrt a" using assms by simp
  ultimately show ?thesis by (rule mult_strict_left_mono)
qed

lemma prop_efficiency_at_Fin: "prop_efficiency_at (Fin j) = Fin (eta_poly j)"
  by (simp add: prop_efficiency_at_def np_sub_def eta_poly_def)

lemma c_d_at_Fin:
  "e0 cfg * AR cfg \<noteq> 0 \<Longrightarrow>
   c_d_at cfg (Fin l) = Fin (c_d0 cfg + l ^ 2 / (314 / 100 * e0 cfg * AR cfg))"
  by (simp add: c_d_at_def)

lemma lt4_cases: "k < 4 \<Longrightarrow> k = 0 \<or> k = 1 \<or> k = 2 \<or> k = (3::nat)"
  by arith

lemma rpms_decreasing: "a < b \<Longrightarrow> b < 4 \<Longrightarrow> rpms ! b < rpms ! a"
proof -
  assume "a < b" "b < 4"
  then have "(b = 1 \<and> a = 0) \<or> (b = 2 \<and> (a = 0 \<or> a = 1)) \<or> (b = 3 \<and> (a = 0 \<or> a = 1 \<or> a = 2))"
    by arith
  then show ?thesis
    by (auto simp: rpms_def density_def density_5000ft_def density_10000ft_def density_15000ft_def)
qed

lemma scale_gt: "1 < (s::real) \<Longrightarrow> 0 < y \<Longrightarrow> y < s * y"
  by simp

lemma scale_ratio: "0 < (y::real) \<Longrightarrow> s * y / y = s"
  by simp

lemma altitude_scale:
  assumes "0 < (ww::real)" "0 < ar" "0 < da" "0 < db"
  shows "sqrt (ww / (5 / 10 * db * ar)) = sqrt (da / db) * sqrt (ww / (5 / 10 * da * ar))"
proof -
  have "ww / (5 / 10 * db * ar) = (da / db) * (ww / (5 / 10 * da * ar))"
    using assms by (simp add: field_simps)
  then show ?thesis by (simp only: real_sqrt_mult)
qed

lemma v_at_scaled:
  assumes "0 < w cfg" "0 < area cfg" "0 < da" "0 < db" "0 \<le> c"
  shows "v_at cfg db (Fin c) = np_mul (Fin (sqrt (da / db))) (v_at cfg da (Fin c))"
proof (cases "c = 0")
  case True
  have "0 < sqrt (da / db)" using assms by simp
  then show ?thesis using assms True by (simp add: v_at_zero inf_of_sign_def)
next
  case False
  then have c: "0 < c" using assms by simp
  show ?thesis
    using assms c altitude_scale [of "w cfg" "area cfg" da db]
    by (simp only: v_at_pos np_mul.simps mult.assoc)
qed

lemma compute_series:
  assumes "area cfg \<noteq> 0"
  shows "\<exists>res. compute cfg = Inr res \<and> length res = 4 \<and>
    (\<forall>k<4. fst (res ! k) = map (v_at cfg (rpms ! k)) c_l \<and>
       fst (snd (res ! k)) = map (roc_at cfg (bhp cfg * 550 * density_ratios ! k) (rpms ! k)) c_l \<and>
       snd (snd (res ! k)) =
         map (climb_angle_at cfg (bhp cfg * 550 * density_ratios ! k) (rpms ! k)) c_l)"
  using assms
  by (simp add: compute_Inr length_rpms length_density_ratios band_nth series_at_def)

lemma np_le_zero_Fin: "0 \<le> x \<Longrightarrow> np_le (Fin 0) (Fin x)"
  by auto

lemma valid_default: "valid_config default_config"
  by (simp add: valid_config_def default_config_def)

lemma lengths_of_compute:
  assumes "area cfg \<noteq> 0"
  shows "\<not> isl (compute cfg) \<and>
         map (\<lambda>s. (length (fst s), length (fst (snd s)), length (snd (snd s)))) (projr (compute cfg))
           = [(20, 20, 20), (20, 20, 20), (20, 20, 20), (20, 20, 20)]"
  using assms
  by (simp add: compute_Inr bands series_at_def length_c_l)

lemma no_validation_aux:
  assumes "area cfg \<noteq> 0"
  shows "\<exists>plots. update_output (Suc n) cfg = Inr (Div plots) \<and> length plots = 8"
proof -
  have p: "update_output (Suc n) cfg =
             Inr (Div (plots_of 0 (zip altitudes (zip density_ratios (map (series_at cfg) (zip rpms density_ratios))))))"
    using assms by (simp add: update_output_def compute_Inr)
  have "length (plots_of 0 (zip altitudes (zip density_ratios (map (series_at cfg) (zip rpms density_ratios))))) = 8"
    by (simp add: altitudes_def density_ratios_def rpms_def series_at_def)
  then show ?thesis using p by blast
qed

lemma compute_raises_iff: "isl (compute cfg) \<longleftrightarrow> area cfg = 0"
  by (cases "area cfg = 0") (simp_all add: compute_Inl compute_Inr)

lemma np_arcsin_gap: "z = Fin r \<Longrightarrow> 1 < \<bar>r\<bar> \<Longrightarrow> np_arcsin z = NaN"
  by simp

lemma np_arcsin_Fin: "np_arcsin z = Fin a \<Longrightarrow> \<exists>r. z = Fin r \<and> \<bar>r\<bar> \<le> 1 \<and> a = arcsin r"
  by (cases z) (auto split: if_splits)

lemma calculate_values_ratio:
  "calculate_values cfg cl b dens ratio = calculate_values cfg cl (b * ratio) dens 1"
  by (simp add: calculate_values_def Let_def split: sum.split)

lemma calculate_values_velocity:
  "map_sum id fst (calculate_values cfg cl b dens ratio) = v_of cfg cl dens"
proof (cases "area cfg = 0 \<or> dens = 0")
  case True
  then show ?thesis
    by (auto simp: calculate_values_def v_of_def py_truediv_def)
next
  case False
  then show ?thesis by (simp add: calculate_values_Inr v_of_Inr)
qed

lemma ratios_not_derived: "density_ratios \<noteq> map (\<lambda>d. d / density) rpms"
  by (simp add: density_ratios_def rpms_def density_def density_5000ft_def)

lemma plots_altitudes:
  assumes "area cfg \<noteq> 0"
  shows "\<exists>plots. update_output (Suc n) cfg = Inr (Div plots) \<and>
           map altitude plots = [0, 0, 5000, 5000, 10000, 10000, 15000, 15000] \<and>
           map plot_index plots = [0, 0, 1, 1, 2, 2, 3, 3]"
proof -
  have p: "update_output (Suc n) cfg =
             Inr (Div (plots_of 0 (zip altitudes (zip density_ratios (map (series_at cfg) (zip rpms density_ratios))))))"
    using assms by (simp add: update_output_def compute_Inr)
  show ?thesis
    unfolding p by (simp add: altitudes_def density_ratios_def rpms_def series_at_def)
qed

subsection \<open>The sign of the quartic\<close>

lemma eta_poly_shift_high:
  "eta_poly (3 / 2 + t) =
     - (40541 / 5000) - 78473 / 2000 * t - 12707 / 200 * t ^ 2 - 4517 / 100 * t ^ 3
     - 603 / 50 * t ^ 4"
  by (simp add: eta_poly_def power2_eq_square power3_eq_cube power4_eq_xxxx field_simps)

lemma eta_poly_high:
  assumes "3 / 2 \<le> j"
  shows "eta_poly j \<le> - (81 / 10)"
proof -
  define t where "t = j - 3 / 2"
  have t: "0 \<le> t" and j: "j = 3 / 2 + t" using assms by (simp_all add: t_def)
  have "0 \<le> 78473 / 2000 * t" "0 \<le> 12707 / 200 * t ^ 2" "0 \<le> 4517 / 100 * t ^ 3"
    "0 \<le> 603 / 50 * t ^ 4"
    using t by simp_all
  then show ?thesis unfolding j eta_poly_shift_high by linarith
qed

lemma eta_poly_shift_low:
  "eta_poly (3 / 10 + t) =
     33209 / 62500 + t * (73591 / 50000 - 25607 / 5000 * t)
     + t ^ 3 * (6359 / 500 - 603 / 50 * t)"
  by (simp add: eta_poly_def power2_eq_square power3_eq_cube power4_eq_xxxx field_simps)

lemma eta_poly_low:
  assumes "3 / 10 \<le> j" "j \<le> 4 / 10"
  shows "1 / 2 \<le> eta_poly j"
proof -
  define t where "t = j - 3 / 10"
  have t: "0 \<le> t" "t \<le> 1 / 10" and j: "j = 3 / 10 + t" using assms by (simp_all add: t_def)
  have a: "0 \<le> t * (73591 / 50000 - 25607 / 5000 * t)"
    using t by (intro mult_nonneg_nonneg) simp_all
  have b: "0 \<le> t ^ 3 * (6359 / 500 - 603 / 50 * t)"
    using t by (intro mult_nonneg_nonneg) simp_all
  show ?thesis unfolding j eta_poly_shift_low using a b by linarith
qed

lemma sqrt_quotient_lower:
  assumes "0 < (a::real)" "0 < c" "0 \<le> lo" "lo ^ 2 * c \<le> a"
  shows "lo \<le> sqrt a * (1 / sqrt c)"
proof -
  have "lo ^ 2 \<le> a / c" using assms by (simp add: pos_le_divide_eq)
  then have "lo \<le> sqrt (a / c)" by (rule real_le_rsqrt)
  then show ?thesis using assms by (simp add: real_sqrt_divide)
qed

lemma sqrt_quotient_upper:
  assumes "0 < (a::real)" "0 < c" "0 \<le> hi" "a \<le> hi ^ 2 * c"
  shows "sqrt a * (1 / sqrt c) \<le> hi"
proof -
  have "a / c \<le> hi ^ 2" using assms by (simp add: pos_divide_le_eq)
  then have "sqrt (a / c) \<le> hi" using assms by (intro real_le_lsqrt) simp_all
  then show ?thesis using assms by (simp add: real_sqrt_divide)
qed

subsection \<open>Power available and the rated power\<close>

lemma v_of_Inr_iff:
  "v_of cfg cl dens = Inr v \<longleftrightarrow>
     area cfg \<noteq> 0 \<and> dens \<noteq> 0 \<and> v = map (v_at cfg dens) cl"
  by (auto simp: v_of_def py_truediv_def v_at_def)

lemma p_av_series_Inr:
  "area cfg \<noteq> 0 \<Longrightarrow> dens \<noteq> 0 \<Longrightarrow>
   p_av_series cfg dens ratio = Inr (map (p_av_at cfg (bhp cfg * 550 * ratio) dens) c_l)"
  by (simp add: p_av_series_def v_of_Inr J_of_map p_av_of_map)

lemma J_at_bhp [simp]: "J_at (cfg\<lparr>bhp := b\<rparr>) dens x = J_at cfg dens x"
  by (simp add: J_at_def v_at_def)

lemma p_av_at_bhp [simp]: "p_av_at (cfg\<lparr>bhp := b\<rparr>) shp dens x = p_av_at cfg shp dens x"
  by (simp add: p_av_at_def)

lemma efficiency_nth:
  "i < 20 \<Longrightarrow>
   prop_efficiency_of (J_of cfg (map (v_at cfg dens) c_l)) ! i
     = prop_efficiency_at (J_at cfg dens (c_l ! i))"
  by (simp add: J_of_map prop_efficiency_of_def length_c_l)

lemma density_ratios_nth_pos: "k < 4 \<Longrightarrow> 0 < density_ratios ! k"
proof -
  assume "k < 4"
  then have "k = 0 \<or> k = 1 \<or> k = 2 \<or> k = 3" by arith
  then show ?thesis by (auto simp: density_ratios_def)
qed

lemma double_less_iff: "0 < (s::real) \<Longrightarrow> s * e < 2 * (s * e) \<longleftrightarrow> 0 < e"
  by (auto simp: zero_less_mult_iff)

lemma double_greater_iff: "0 < (s::real) \<Longrightarrow> 2 * (s * e) < s * e \<longleftrightarrow> e < 0"
  by (auto simp: mult_less_0_iff)

subsection \<open>The default values at sea level\<close>

lemma ref_q_pos: "0 < ref_q"
  by (simp add: ref_q_def default_config_def density_def)

lemma default_v_at:
  "0 < c \<Longrightarrow> v_at default_config density (Fin c) = Fin (sqrt ref_q * (1 / sqrt c))"
  unfolding ref_q_def
  by (rule v_at_pos) (simp_all add: default_config_def density_def)

lemma default_J_at:
  "0 < c \<Longrightarrow>
   J_at default_config density (Fin c) = Fin (sqrt ref_q * (1 / sqrt c) / (1095 / 4))"
  by (simp add: J_at_def default_v_at) (simp add: default_config_def)

lemma default_v1_bounds:
  "3285 / 8 \<le> sqrt ref_q * (1 / sqrt cl_step) \<and> sqrt ref_q * (1 / sqrt cl_step) \<le> 415"
proof
  show "3285 / 8 \<le> sqrt ref_q * (1 / sqrt cl_step)"
    by (rule sqrt_quotient_lower [OF ref_q_pos cl_step_pos])
      (simp_all add: ref_q_def cl_step_def default_config_def density_def power2_eq_square)
  show "sqrt ref_q * (1 / sqrt cl_step) \<le> 415"
    by (rule sqrt_quotient_upper [OF ref_q_pos cl_step_pos])
      (simp_all add: ref_q_def cl_step_def default_config_def density_def power2_eq_square)
qed

lemma default_v19_bounds:
  "657 / 8 \<le> sqrt ref_q * (1 / sqrt (19 * cl_step)) \<and>
   sqrt ref_q * (1 / sqrt (19 * cl_step)) \<le> 219 / 2"
proof
  have c: "0 < 19 * cl_step" using cl_step_pos by simp
  show "657 / 8 \<le> sqrt ref_q * (1 / sqrt (19 * cl_step))"
    by (rule sqrt_quotient_lower [OF ref_q_pos c])
      (simp_all add: ref_q_def cl_step_def default_config_def density_def power2_eq_square)
  show "sqrt ref_q * (1 / sqrt (19 * cl_step)) \<le> 219 / 2"
    by (rule sqrt_quotient_upper [OF ref_q_pos c])
      (simp_all add: ref_q_def cl_step_def default_config_def density_def power2_eq_square)
qed

lemma default_efficiency_1:
  "\<exists>e. prop_efficiency_at (J_at default_config density (c_l ! 1)) = Fin e \<and> e \<le> - (81 / 10)"
proof -
  define x where "x = sqrt ref_q * (1 / sqrt cl_step)"
  have "3285 / 8 \<le> x" using default_v1_bounds by (simp add: x_def)
  then have "3 / 2 \<le> x / (1095 / 4)" by simp
  then have "eta_poly (x / (1095 / 4)) \<le> - (81 / 10)" by (rule eta_poly_high)
  moreover have "prop_efficiency_at (J_at default_config density (c_l ! 1))
                   = Fin (eta_poly (x / (1095 / 4)))"
    unfolding x_def using cl_step_pos
    by (simp only: c_l_nth' default_J_at prop_efficiency_at_Fin) simp
  ultimately show ?thesis by blast
qed

lemma default_efficiency_19:
  "\<exists>e. prop_efficiency_at (J_at default_config density (c_l ! 19)) = Fin e \<and> 1 / 2 \<le> e"
proof -
  define x where "x = sqrt ref_q * (1 / sqrt (19 * cl_step))"
  have "657 / 8 \<le> x" "x \<le> 219 / 2" using default_v19_bounds by (simp_all add: x_def)
  then have "3 / 10 \<le> x / (1095 / 4)" "x / (1095 / 4) \<le> 4 / 10" by simp_all
  then have "1 / 2 \<le> eta_poly (x / (1095 / 4))" by (rule eta_poly_low)
  moreover have c: "0 < 19 * cl_step" using cl_step_pos by simp
  have "c_l ! 19 = Fin (19 * cl_step)" using c_l_nth' [of 19] by simp
  then have "prop_efficiency_at (J_at default_config density (c_l ! 19))
                   = Fin (eta_poly (x / (1095 / 4)))"
    unfolding x_def using c by (simp only: default_J_at prop_efficiency_at_Fin)
  ultimately show ?thesis by blast
qed

lemma default_nonzero: "area default_config \<noteq> 0" "density \<noteq> 0"
  by (simp_all add: default_config_def density_def)

lemma band_0: "rpms ! 0 = density" "density_ratios ! 0 = 1"
  by (simp_all add: rpms_def density_ratios_def)

lemma sqrt_scale_upper:
  assumes "0 < (c::real)" "0 < c'" "0 \<le> s" "c' \<le> s ^ 2 * c"
  shows "1 / sqrt c \<le> s * (1 / sqrt c')"
proof -
  have "sqrt c' \<le> sqrt (s ^ 2 * c)" using assms by simp
  also have "\<dots> = s * sqrt c" using assms by (simp add: real_sqrt_mult)
  finally have "sqrt c' \<le> s * sqrt c" .
  moreover have "0 < sqrt c" "0 < sqrt c'" using assms by simp_all
  ultimately show ?thesis by (simp add: field_simps)
qed

lemma sqrt_scale_lower:
  assumes "0 < (c::real)" "0 < c'" "0 \<le> s" "s ^ 2 * c < c'"
  shows "s * (1 / sqrt c') < 1 / sqrt c"
proof -
  have "sqrt (s ^ 2 * c) < sqrt c'" using assms by simp
  moreover have "sqrt (s ^ 2 * c) = s * sqrt c" using assms by (simp add: real_sqrt_mult)
  ultimately have "s * sqrt c < sqrt c'" by simp
  moreover have "0 < sqrt c" "0 < sqrt c'" using assms by simp_all
  ultimately show ?thesis by (simp add: field_simps)
qed

lemma powr_three_halves: "0 < (c::real) \<Longrightarrow> c powr (3 / 2) = c * sqrt c"
proof -
  assume c: "0 < c"
  have "c powr (3 / 2) = c powr (1 + 1 / 2)" by simp
  also have "\<dots> = c powr 1 * c powr (1 / 2)" by (rule powr_add)
  also have "\<dots> = c * sqrt c" using c by (simp add: powr_half_sqrt)
  finally show ?thesis .
qed

lemma default_p_req_at:
  "0 < c \<Longrightarrow>
   p_req_at default_config density (Fin c) =
     Fin (2400 * sqrt ref_q *
            ((317 / 10000 + c ^ 2 / (314 / 100 * (6 / 10) * (571 / 100))) / (c * sqrt c)))"
proof -
  assume c: "0 < c"
  have q: "2 * w default_config / (area default_config * density) = ref_q"
    by (simp add: ref_q_def default_config_def density_def)
  have cd: "c_d_at default_config (Fin c)
              = Fin (317 / 10000 + c ^ 2 / (314 / 100 * (6 / 10) * (571 / 100)))"
    by (simp add: c_d_at_def default_config_def)
  have pw: "np_pow_1_5 (Fin c) = Fin (c * sqrt c)"
    using c by (simp add: powr_three_halves)
  have nz: "c * sqrt c \<noteq> 0" using c by simp
  have sq: "np_sqrt (Fin ref_q) = Fin (sqrt ref_q)" using ref_q_pos by simp
  show ?thesis
    unfolding p_req_at_def q cd pw sq using nz by (simp add: default_config_def)
qed

lemma default_p_req_1:
  "\<exists>p. p_req_at default_config density (c_l ! 1) = Fin p \<and> 360000 \<le> p"
proof -
  define s where "s = sqrt ref_q"
  define d where "d = cl_step * sqrt cl_step"
  define cd where "cd = 317 / 10000 + cl_step ^ 2 / (314 / 100 * (6 / 10) * (571 / 100))"
  have s: "100 \<le> s" unfolding s_def
    by (rule real_le_rsqrt) (simp add: ref_q_def default_config_def density_def)
  have r: "sqrt cl_step \<le> 27 / 100"
    by (rule real_le_lsqrt) (simp_all add: cl_step_def power2_eq_square)
  have r0: "0 < sqrt cl_step" using cl_step_pos by simp
  have c7: "cl_step \<le> 7 / 100" by (simp add: cl_step_def)
  have "cl_step * sqrt cl_step \<le> 7 / 100 * (27 / 100)"
    using c7 r r0 cl_step_pos by (intro mult_mono) simp_all
  then have d: "d \<le> 189 / 10000" by (simp add: d_def)
  have d0: "0 < d" unfolding d_def using cl_step_pos r0 by simp
  have "0 \<le> cl_step ^ 2 / (314 / 100 * (6 / 10) * (571 / 100))" by simp
  then have cd: "317 / 10000 \<le> cd" by (simp add: cd_def)
  have "3 / 2 * d \<le> cd" using d cd by simp
  then have q: "3 / 2 \<le> cd / d" using d0 by (simp add: pos_le_divide_eq)
  have "2400 * 100 * (3 / 2) \<le> 2400 * s * (cd / d)"
    using s q by (intro mult_mono) simp_all
  then have "360000 \<le> 2400 * s * (cd / d)" by simp
  moreover have "p_req_at default_config density (c_l ! 1) = Fin (2400 * s * (cd / d))"
    unfolding s_def d_def cd_def using cl_step_pos
    by (simp only: c_l_nth' default_p_req_at) (simp add: default_p_req_at)
  ultimately show ?thesis by blast
qed

lemma default_ratio_1:
  "\<exists>r. np_div (roc_at default_config (bhp default_config * 550 * 1) density (c_l ! 1))
               (v_at default_config density (c_l ! 1)) = Fin r \<and> r < - 1"
proof -
  obtain e where e: "prop_efficiency_at (J_at default_config density (c_l ! 1)) = Fin e"
    and neg: "e \<le> - (81 / 10)"
    using default_efficiency_1 by blast
  obtain p where p: "p_req_at default_config density (c_l ! 1) = Fin p" and big: "360000 \<le> p"
    using default_p_req_1 by blast
  define x where "x = sqrt ref_q * (1 / sqrt cl_step)"
  have x: "3285 / 8 \<le> x" "x \<le> 415" using default_v1_bounds by (simp_all add: x_def)
  have v: "v_at default_config density (c_l ! 1) = Fin x"
    unfolding x_def using cl_step_pos by (simp add: c_l_nth' default_v_at)
  have roc: "roc_at default_config (bhp default_config * 550 * 1) density (c_l ! 1)
               = Fin ((99000 * e - p) / 2400)"
    unfolding roc_at_def p_av_at_def e p by (simp add: np_sub_def default_config_def)
  have "(99000 * e - p) / 2400 < - x" using neg big x by simp
  then have "(99000 * e - p) / 2400 / x < - 1" using x by (simp add: pos_divide_less_eq)
  moreover have "np_div (Fin ((99000 * e - p) / 2400)) (Fin x) = Fin ((99000 * e - p) / 2400 / x)"
    using x by simp
  ultimately show ?thesis unfolding roc v by blast
qed

subsection \<open>The plots of a call\<close>

lemma plots_of_length: "length (plots_of j xs) = 2 * length xs"
  by (induction j xs rule: plots_of.induct) simp_all

lemma plots_of_nth:
  "k < length xs \<Longrightarrow>
   plots_of j xs ! (2 * k) =
     \<lparr>kind = RocPlot, plot_index = j + k, altitude = fst (xs ! k),
      scatter_x = fst (snd (snd (xs ! k))), scatter_y = fst (snd (snd (snd (xs ! k))))\<rparr> \<and>
   plots_of j xs ! (2 * k + 1) =
     \<lparr>kind = ClimbAnglePlot, plot_index = j + k, altitude = fst (xs ! k),
      scatter_x = fst (snd (snd (xs ! k))), scatter_y = snd (snd (snd (snd (xs ! k))))\<rparr>"
proof (induction j xs arbitrary: k rule: plots_of.induct)
  case (1 i)
  then show ?case by simp
next
  case (2 i alt density_ratio v roc climb_angle rest)
  show ?case
  proof (cases k)
    case 0
    then show ?thesis by simp
  next
    case (Suc m)
    then have "m < length rest" using 2(2) by simp
    from 2(1) [OF this] show ?thesis using Suc by simp
  qed
qed

lemma update_output_plots:
  assumes "area cfg \<noteq> 0"
  shows "\<exists>res plots. compute cfg = Inr res \<and> length res = 4 \<and>
     update_output (Suc n) cfg = Inr (Div plots) \<and> length plots = 8 \<and>
     (\<forall>k<4. plots ! (2 * k) =
                \<lparr>kind = RocPlot, plot_index = k, altitude = altitudes ! k,
                 scatter_x = fst (res ! k), scatter_y = fst (snd (res ! k))\<rparr> \<and>
              plots ! (2 * k + 1) =
                \<lparr>kind = ClimbAnglePlot, plot_index = k, altitude = altitudes ! k,
                 scatter_x = fst (res ! k), scatter_y = snd (snd (res ! k))\<rparr>)"
proof -
  let ?res = "map (series_at cfg) (zip rpms density_ratios)"
  let ?xs = "zip altitudes (zip density_ratios ?res)"
  have r: "compute cfg = Inr ?res" using assms by (rule compute_Inr)
  have l: "length ?res = 4" by (simp add: length_rpms length_density_ratios)
  have la: "length altitudes = 4" by (simp add: altitudes_def)
  have lx: "length ?xs = 4" by (simp add: la length_rpms length_density_ratios)
  have u: "update_output (Suc n) cfg = Inr (Div (plots_of 0 ?xs))"
    by (simp add: update_output_def r)
  have nth: "?xs ! k = (altitudes ! k, density_ratios ! k, ?res ! k)" if "k < 4" for k
    using that by (simp add: la length_rpms length_density_ratios)
  have p: "plots_of 0 ?xs ! (2 * k) =
             \<lparr>kind = RocPlot, plot_index = k, altitude = altitudes ! k,
              scatter_x = fst (?res ! k), scatter_y = fst (snd (?res ! k))\<rparr> \<and>
           plots_of 0 ?xs ! (2 * k + 1) =
             \<lparr>kind = ClimbAnglePlot, plot_index = k, altitude = altitudes ! k,
              scatter_x = fst (?res ! k), scatter_y = snd (snd (?res ! k))\<rparr>"
    if k: "k < 4" for k
  proof -
    have "k < length ?xs" using k lx by simp
    from plots_of_nth [OF this, of 0] show ?thesis by (simp only: nth [OF k] fst_conv snd_conv add_0)
  qed
  have len: "length (plots_of 0 ?xs) = 8" by (simp only: plots_of_length lx)
  show ?thesis
  proof (intro exI conjI)
    show "compute cfg = Inr ?res" by (rule r)
    show "length ?res = 4" by (rule l)
    show "update_output (Suc n) cfg = Inr (Div (plots_of 0 ?xs))" by (rule u)
    show "length (plots_of 0 ?xs) = 8" by (rule len)
    show "\<forall>k<4. plots_of 0 ?xs ! (2 * k) =
                \<lparr>kind = RocPlot, plot_index = k, altitude = altitudes ! k,
                 scatter_x = fst (?res ! k), scatter_y = fst (snd (?res ! k))\<rparr> \<and>
              plots_of 0 ?xs ! (2 * k + 1) =
                \<lparr>kind = ClimbAnglePlot, plot_index = k, altitude = altitudes ! k,
                 scatter_x = fst (?res ! k), scatter_y = snd (snd (?res ! k))\<rparr>"
      using p by blast
  qed
qed

lemma np_arcsin_in_domain: "z = Fin r \<Longrightarrow> \<bar>r\<bar> \<le> 1 \<Longrightarrow> np_arcsin z = Fin (arcsin r)"
  by simp

lemma np_arcsin_NaN_iff: "np_arcsin z = NaN \<longleftrightarrow> \<not> (\<exists>r. z = Fin r \<and> \<bar>r\<bar> \<le> 1)"
  by (cases z) auto

lemma np_arcsin_not_inf: "np_arcsin z \<noteq> PInf \<and> np_arcsin z \<noteq> NInf"
  by (cases z) auto

subsection \<open>The last sample of the sweep at sea level\<close>

lemma eta_poly_low_upper:
  assumes "3 / 10 \<le> j" "j \<le> 4 / 10"
  shows "eta_poly j \<le> 1"
proof -
  define t where "t = j - 3 / 10"
  have t: "0 \<le> t" "t \<le> 1 / 10" and j: "j = 3 / 10 + t" using assms by (simp_all add: t_def)
  have "t * (73591 / 50000 - 25607 / 5000 * t) \<le> 1 / 10 * (73591 / 50000)"
    using t by (intro mult_mono) simp_all
  then have a: "t * (73591 / 50000 - 25607 / 5000 * t) \<le> 15 / 100" by simp
  have "t ^ 3 \<le> (1 / 10) ^ 3" using t by (intro power_mono) simp_all
  moreover have "0 \<le> t ^ 3" using t by simp
  ultimately have "t ^ 3 * (6359 / 500 - 603 / 50 * t) \<le> (1 / 10) ^ 3 * (6359 / 500)"
    using t by (intro mult_mono) simp_all
  then have b: "t ^ 3 * (6359 / 500 - 603 / 50 * t) \<le> 2 / 100" by (simp add: power3_eq_cube)
  show ?thesis unfolding j eta_poly_shift_low using a b by linarith
qed

lemma c_l_19: "c_l ! 19 = Fin (19 * cl_step)"
  using c_l_nth' [of 19] by simp

lemma default_efficiency_19_range:
  "\<exists>e. prop_efficiency_at (J_at default_config density (c_l ! 19)) = Fin e \<and>
       1 / 2 \<le> e \<and> e \<le> 1"
proof -
  define x where "x = sqrt ref_q * (1 / sqrt (19 * cl_step))"
  have "657 / 8 \<le> x" "x \<le> 219 / 2" using default_v19_bounds by (simp_all add: x_def)
  then have r: "3 / 10 \<le> x / (1095 / 4)" "x / (1095 / 4) \<le> 4 / 10" by simp_all
  have lo: "1 / 2 \<le> eta_poly (x / (1095 / 4))" using r by (rule eta_poly_low)
  have hi: "eta_poly (x / (1095 / 4)) \<le> 1" using r by (rule eta_poly_low_upper)
  have c: "0 < 19 * cl_step" using cl_step_pos by simp
  have "prop_efficiency_at (J_at default_config density (c_l ! 19))
          = Fin (eta_poly (x / (1095 / 4)))"
    unfolding x_def c_l_19 using c by (simp only: default_J_at prop_efficiency_at_Fin)
  then show ?thesis using lo hi by blast
qed

lemma default_p_req_19:
  "\<exists>p. p_req_at default_config density (c_l ! 19) = Fin p \<and> 0 \<le> p \<and> p \<le> 52800"
proof -
  define c where "c = 19 * cl_step"
  define s where "s = sqrt ref_q"
  define d where "d = c * sqrt c"
  define cd where "cd = 317 / 10000 + c ^ 2 / (314 / 100 * (6 / 10) * (571 / 100))"
  have c: "0 < c" "1 \<le> c" by (simp_all add: c_def cl_step_def)
  have rq: "0 \<le> ref_q" using ref_q_pos by simp
  have q1: "ref_q \<le> 110\<^sup>2" by (simp add: ref_q_def default_config_def density_def)
  have s: "s \<le> 110" unfolding s_def by (rule real_le_lsqrt [OF _ q1]) simp
  have s0: "0 \<le> s" using rq by (simp add: s_def)
  have r: "1 \<le> sqrt c" using c by simp
  have "1 * 1 \<le> c * sqrt c" using c r by (intro mult_mono) simp_all
  then have d: "1 \<le> d" by (simp add: d_def)
  have cd: "cd \<le> 2 / 10" by (simp add: cd_def c_def cl_step_def power2_eq_square)
  have cd0: "0 \<le> cd" by (simp add: cd_def)
  have "cd \<le> 2 / 10 * d" using cd d by simp
  then have q: "cd / d \<le> 2 / 10" using d by (simp add: pos_divide_le_eq)
  have q0: "0 \<le> cd / d" using cd0 d by simp
  have "2400 * s * (cd / d) \<le> 2400 * 110 * (2 / 10)"
    using s s0 q q0 by (intro mult_mono) simp_all
  then have up: "2400 * s * (cd / d) \<le> 52800" by simp
  have lo: "0 \<le> 2400 * s * (cd / d)" using s0 q0 by (intro mult_nonneg_nonneg) simp_all
  have "p_req_at default_config density (c_l ! 19) = Fin (2400 * s * (cd / d))"
    unfolding s_def d_def cd_def c_l_19 c_def [symmetric] using c(1) by (rule default_p_req_at)
  then show ?thesis using lo up by blast
qed

lemma default_ratio_19:
  "\<exists>r. np_div (roc_at default_config (bhp default_config * 550 * 1) density (c_l ! 19))
               (v_at default_config density (c_l ! 19)) = Fin r \<and> \<bar>r\<bar> \<le> 1"
proof -
  obtain e where e: "prop_efficiency_at (J_at default_config density (c_l ! 19)) = Fin e"
    and er: "1 / 2 \<le> e" "e \<le> 1"
    using default_efficiency_19_range by blast
  obtain p where p: "p_req_at default_config density (c_l ! 19) = Fin p"
    and pr: "0 \<le> p" "p \<le> 52800"
    using default_p_req_19 by blast
  define x where "x = sqrt ref_q * (1 / sqrt (19 * cl_step))"
  have x: "657 / 8 \<le> x" using default_v19_bounds by (simp add: x_def)
  have c: "0 < 19 * cl_step" using cl_step_pos by simp
  have v: "v_at default_config density (c_l ! 19) = Fin x"
    unfolding x_def c_l_19 using c by (rule default_v_at)
  have roc: "roc_at default_config (bhp default_config * 550 * 1) density (c_l ! 19)
               = Fin ((99000 * e - p) / 2400)"
    unfolding roc_at_def p_av_at_def e p by (simp add: np_sub_def default_config_def)
  define y where "y = (99000 * e - p) / 2400"
  have y: "y \<le> x" "- x \<le> y" using er pr x by (simp_all add: y_def)
  have x0: "0 < x" using x by simp
  have "y / x \<le> 1" "- 1 \<le> y / x"
    using y x0 by (simp_all add: pos_divide_le_eq pos_le_divide_eq)
  then have "\<bar>y / x\<bar> \<le> 1" by (simp add: abs_le_iff)
  moreover have "np_div (Fin y) (Fin x) = Fin (y / x)" using x0 by simp
  ultimately show ?thesis unfolding roc v y_def [symmetric] by blast
qed

subsection \<open>The equations of one altitude band\<close>

lemma band_equations:
  assumes "area cfg \<noteq> 0" "k < 4"
  shows "\<exists>v p_req p_av.
     v_of cfg c_l (rpms ! k) = Inr v \<and>
     p_req_of cfg c_l (rpms ! k) (c_d_of cfg c_l) = Inr p_req \<and>
     p_av_series cfg (rpms ! k) (density_ratios ! k) = Inr p_av \<and>
     calculate_values cfg c_l (bhp cfg * 550) (rpms ! k) (density_ratios ! k)
       = Inr (v, roc_of cfg p_av p_req, climb_angle_of (roc_of cfg p_av p_req) v) \<and>
     (\<forall>i<20.
        v ! i = np_mul (np_sqrt (Fin (w cfg / (5 / 10 * rpms ! k * area cfg))))
                  (np_div (Fin 1) (np_sqrt (c_l ! i))) \<and>
        d_of cfg (rpms ! k) v ! i
          = np_mul (Fin (5 / 10 * rpms ! k * area cfg)) (np_power (v ! i) 2) \<and>
        c_d_of cfg c_l ! i
          = np_add (Fin (c_d0 cfg))
              (np_div (np_power (c_l ! i) 2) (Fin (314 / 100 * e0 cfg * AR cfg))) \<and>
        p_req ! i
          = np_mul (np_mul (Fin (w cfg)) (np_sqrt (Fin (2 * w cfg / (area cfg * rpms ! k)))))
              (np_div (c_d_of cfg c_l ! i) (np_pow_1_5 (c_l ! i))) \<and>
        p_av ! i
          = np_mul (Fin (bhp cfg * 550 * density_ratios ! k))
              (prop_efficiency_at (np_div (v ! i) (Fin (rpm cfg / 60 * prop_diameter cfg)))) \<and>
        roc_of cfg p_av p_req ! i = np_div (np_sub (p_av ! i) (p_req ! i)) (Fin (w cfg)) \<and>
        climb_angle_of (roc_of cfg p_av p_req) v ! i
          = np_arcsin (np_div (roc_of cfg p_av p_req ! i) (v ! i)))"
proof -
  let ?d = "rpms ! k" and ?s = "bhp cfg * 550 * density_ratios ! k"
  let ?v = "map (v_at cfg ?d) c_l"
  let ?p_req = "map (p_req_at cfg ?d) c_l"
  let ?p_av = "map (p_av_at cfg ?s ?d) c_l"
  have d: "?d \<noteq> 0" using rpms_nth_pos [OF assms(2)] by simp
  have 1: "v_of cfg c_l ?d = Inr ?v" using assms(1) d by (rule v_of_Inr)
  have 2: "p_req_of cfg c_l ?d (c_d_of cfg c_l) = Inr ?p_req" using assms(1) d by (rule p_req_of_Inr)
  have 3: "p_av_series cfg ?d (density_ratios ! k) = Inr ?p_av"
    using assms(1) d by (rule p_av_series_Inr)
  have roc: "roc_of cfg ?p_av ?p_req = map (roc_at cfg ?s ?d) c_l" by (rule roc_of_map)
  have ca: "climb_angle_of (map (roc_at cfg ?s ?d) c_l) ?v = map (climb_angle_at cfg ?s ?d) c_l"
    by (rule climb_angle_of_map)
  have 4: "calculate_values cfg c_l (bhp cfg * 550) ?d (density_ratios ! k)
             = Inr (?v, roc_of cfg ?p_av ?p_req, climb_angle_of (roc_of cfg ?p_av ?p_req) ?v)"
    unfolding roc ca using assms(1) d by (rule calculate_values_Inr)
  have 5: "?v ! i = np_mul (np_sqrt (Fin (w cfg / (5 / 10 * ?d * area cfg))))
                      (np_div (Fin 1) (np_sqrt (c_l ! i)))"
    "d_of cfg ?d ?v ! i = np_mul (Fin (5 / 10 * ?d * area cfg)) (np_power (?v ! i) 2)"
    "c_d_of cfg c_l ! i
       = np_add (Fin (c_d0 cfg)) (np_div (np_power (c_l ! i) 2) (Fin (314 / 100 * e0 cfg * AR cfg)))"
    "?p_req ! i
       = np_mul (np_mul (Fin (w cfg)) (np_sqrt (Fin (2 * w cfg / (area cfg * ?d)))))
           (np_div (c_d_of cfg c_l ! i) (np_pow_1_5 (c_l ! i)))"
    "?p_av ! i
       = np_mul (Fin ?s)
           (prop_efficiency_at (np_div (?v ! i) (Fin (rpm cfg / 60 * prop_diameter cfg))))"
    "roc_of cfg ?p_av ?p_req ! i = np_div (np_sub (?p_av ! i) (?p_req ! i)) (Fin (w cfg))"
    "climb_angle_of (roc_of cfg ?p_av ?p_req) ?v ! i
       = np_arcsin (np_div (roc_of cfg ?p_av ?p_req ! i) (?v ! i))"
    if "i < 20" for i
    using that
    by (simp_all add: roc ca length_c_l v_at_def d_of_def c_d_of_map c_d_at_def p_req_at_def
        p_av_at_def J_at_def roc_at_def climb_angle_at_def)
  show ?thesis
    by (rule exI [of _ ?v], rule exI [of _ ?p_req], rule exI [of _ ?p_av])
       (intro conjI allI impI 1 2 3 4 5)
qed

lemma compute_bands:
  assumes "area cfg \<noteq> 0"
  shows "\<exists>res. compute cfg = Inr res \<and> length res = 4 \<and>
           (\<forall>k<4. calculate_values cfg c_l (bhp cfg * 550) (rpms ! k) (density_ratios ! k)
                     = Inr (res ! k))"
proof -
  let ?res = "map (series_at cfg) (zip rpms density_ratios)"
  have r: "compute cfg = Inr ?res" using assms by (rule compute_Inr)
  have l: "length ?res = 4" by (simp add: length_rpms length_density_ratios)
  have c: "calculate_values cfg c_l (bhp cfg * 550) (rpms ! k) (density_ratios ! k)
             = Inr (?res ! k)" if "k < 4" for k
  proof -
    have "rpms ! k \<noteq> 0" using rpms_nth_pos [OF that] by simp
    then show ?thesis
      using assms that
      by (simp add: calculate_values_Inr length_rpms length_density_ratios band_nth series_at_def)
  qed
  show ?thesis
    by (rule exI [of _ ?res]) (simp add: r c length_rpms length_density_ratios)
qed

section \<open>The claims\<close>

text \<open>
  C5. Line 113 computes \<open>c_d0 + c_l\<^sup>2 / (3.14 * e0 * AR)\<close> with the literal 3.14, sample by
  sample, whenever \<open>e0 * AR\<close> is not zero (as in every valid configuration); at the
  sample \<open>c_l = 0\<close> the result is \<open>c_d0\<close> itself.
\<close>

theorem drag_coefficient_formula:
  assumes "e0 cfg * AR cfg \<noteq> 0"
  shows "c_d_of cfg (map Fin ls) =
           map (\<lambda>l. Fin (c_d0 cfg + l ^ 2 / (314 / 100 * e0 cfg * AR cfg))) ls
         \<and> c_d_of cfg [Fin 0] = [Fin (c_d0 cfg)]
         \<and> c_d_of cfg c_l ! 0 = Fin (c_d0 cfg)"
  using assms by (simp add: c_d_of_def c_l_def linspace_def)

theorem drag_coefficient_formula_witness:
  "e0 default_config * AR default_config \<noteq> 0
   \<and> c_d_of default_config [Fin 0, Fin 1] = [Fin (317 / 10000), Fin (317 / 10000 + 1 / (314 / 100 * (6 / 10) * (571 / 100)))]
   \<and> c_d_of default_config c_l ! 0 = Fin (317 / 10000)"
proof -
  have h: "e0 default_config * AR default_config \<noteq> 0"
    by (simp add: default_config_def)
  show ?thesis
    using h drag_coefficient_formula [OF h, of "[0, 1]"] by (simp add: default_config_def)
qed

text \<open>
  C6. Line 117 is the quartic \<open>-12.06 J\<^sup>4 + 27.19 J\<^sup>3 - 23.08 J\<^sup>2 + 9.281 J - 0.8122\<close> on
  every finite advance ratio, with no clamping: at \<open>J = 0\<close> it is \<open>-0.8122\<close>, which is
  below zero.
\<close>

theorem propeller_efficiency_quartic:
  "prop_efficiency_of (map Fin js) =
     map (\<lambda>j. Fin (- (1206 / 100) * j ^ 4 + 2719 / 100 * j ^ 3 - 2308 / 100 * j ^ 2
                     + 9281 / 1000 * j - 8122 / 10000)) js
   \<and> prop_efficiency_of [Fin 0] = [Fin (- (8122 / 10000))]
   \<and> np_less (prop_efficiency_at (Fin 0)) (Fin 0)"
  by (simp add: prop_efficiency_of_def prop_efficiency_at_def np_sub_def)

text \<open>
  C9. With positive weight and wing area, at each of the four altitudes the velocities of
  the samples with positive lift coefficient (indices 1 to 19) are finite and strictly
  decreasing along the sweep.
\<close>

theorem velocity_decreasing_in_sweep:
  assumes "0 < w cfg" "0 < area cfg" "k < 4" "1 \<le> i" "i < j" "j < 20"
  shows "\<exists>res x y. compute cfg = Inr res \<and> fst (res ! k) ! i = Fin x \<and>
           fst (res ! k) ! j = Fin y \<and> y < x \<and> np_less (fst (res ! k) ! j) (fst (res ! k) ! i)"
proof -
  obtain res where r: "compute cfg = Inr res"
    "res ! k = (map (v_at cfg (rpms ! k)) c_l,
                map (roc_at cfg (bhp cfg * 550 * density_ratios ! k) (rpms ! k)) c_l,
                map (climb_angle_at cfg (bhp cfg * 550 * density_ratios ! k) (rpms ! k)) c_l)"
    using compute_nth [of cfg k] assms by auto
  let ?a = "w cfg / (5 / 10 * rpms ! k * area cfg)"
  have d: "0 < rpms ! k" using assms by (simp add: rpms_nth_pos)
  have a: "0 < ?a" using assms d by simp
  have ci: "0 < real i * cl_step" and cj: "0 < real j * cl_step"
    and cij: "real i * cl_step < real j * cl_step"
    using assms cl_step_pos by simp_all
  have vi: "fst (res ! k) ! i = Fin (sqrt ?a * (1 / sqrt (real i * cl_step)))"
    using assms d ci by (simp add: r length_c_l c_l_nth' v_at_pos)
  have vj: "fst (res ! k) ! j = Fin (sqrt ?a * (1 / sqrt (real j * cl_step)))"
    using assms d cj by (simp add: r length_c_l c_l_nth' v_at_pos)
  have lt: "sqrt ?a * (1 / sqrt (real j * cl_step)) < sqrt ?a * (1 / sqrt (real i * cl_step))"
    using v_real_decreasing [OF a ci cij] .
  show ?thesis using r(1) vi vj lt by simp
qed

theorem velocity_decreasing_in_sweep_witness:
  "0 < w default_config \<and> 0 < area default_config \<and>
   (\<exists>res. compute default_config = Inr res \<and> np_less (fst (res ! 0) ! 2) (fst (res ! 0) ! 1))"
proof -
  have h: "0 < w default_config" "0 < area default_config"
    by (simp_all add: default_config_def)
  from velocity_decreasing_in_sweep [OF h, of 0 1 2]
  show ?thesis using h by auto
qed

text \<open>
  C10. With positive weight and wing area, at every sample with positive lift coefficient
  the velocity at a higher altitude band is strictly greater than at a lower one, the
  quotient of the two is \<open>sqrt (density_low / density_high)\<close>, and the whole velocity
  series of a band is the sea-level series times \<open>sqrt (density_0 / density_band)\<close>.
\<close>

theorem velocity_scales_with_altitude:
  assumes "0 < w cfg" "0 < area cfg" "a < b" "b < 4" "1 \<le> i" "i < 20"
  shows "\<exists>res x y. compute cfg = Inr res \<and> fst (res ! a) ! i = Fin y \<and>
           fst (res ! b) ! i = Fin x \<and> 0 < y \<and> y < x \<and> x / y = sqrt (rpms ! a / rpms ! b) \<and>
           (\<forall>n<20. fst (res ! b) ! n = np_mul (Fin (sqrt (rpms ! 0 / rpms ! b))) (fst (res ! 0) ! n))"
proof -
  have a4: "a < 4" using assms by simp
  obtain res where r: "compute cfg = Inr res"
    using compute_nth [of cfg 0] assms by auto
  have rk: "k < 4 \<Longrightarrow> fst (res ! k) = map (v_at cfg (rpms ! k)) c_l" for k
    using compute_nth [of cfg k] assms r by auto
  let ?c = "real i * cl_step"
  let ?qa = "w cfg / (5 / 10 * rpms ! a * area cfg)"
  let ?y = "sqrt ?qa * (1 / sqrt ?c)"
  let ?s = "sqrt (rpms ! a / rpms ! b)"
  have da: "0 < rpms ! a" and db: "0 < rpms ! b" and d0: "0 < rpms ! 0"
    using assms a4 by (simp_all add: rpms_nth_pos)
  have c: "0 < ?c" using assms cl_step_pos by simp
  have ya: "fst (res ! a) ! i = Fin ?y"
    using assms a4 da c by (simp add: rk length_c_l c_l_nth' v_at_pos)
  have xb: "fst (res ! b) ! i = Fin (?s * ?y)"
    using assms db c v_at_scaled [of cfg "rpms ! a" "rpms ! b" ?c] da
    by (simp add: rk length_c_l c_l_nth' v_at_pos)
  have ypos: "0 < ?y"
    using half_density_area_pos [OF assms(1,2) da] c by simp
  have "rpms ! b < rpms ! a" using assms by (simp add: rpms_decreasing)
  then have "1 < rpms ! a / rpms ! b" using db by simp
  then have s1: "1 < ?s" by simp
  have lt: "?y < ?s * ?y" using s1 ypos by (rule scale_gt)
  have ratio: "?s * ?y / ?y = ?s" using ypos by (rule scale_ratio)
  have scaled: "\<forall>n<20. fst (res ! b) ! n = np_mul (Fin (sqrt (rpms ! 0 / rpms ! b))) (fst (res ! 0) ! n)"
  proof (intro allI impI)
    fix n :: nat assume n: "n < 20"
    have "0 \<le> real n * cl_step" using cl_step_pos by simp
    then show "fst (res ! b) ! n = np_mul (Fin (sqrt (rpms ! 0 / rpms ! b))) (fst (res ! 0) ! n)"
      using assms n d0 db v_at_scaled [of cfg "rpms ! 0" "rpms ! b" "real n * cl_step"]
      by (simp add: rk length_c_l c_l_nth')
  qed
  show ?thesis using r ya xb ypos lt ratio scaled by blast
qed

theorem velocity_scales_with_altitude_witness:
  "0 < w default_config \<and> 0 < area default_config \<and>
   (\<exists>res x y. compute default_config = Inr res \<and> fst (res ! 0) ! 1 = Fin y \<and>
      fst (res ! 3) ! 1 = Fin x \<and> y < x \<and> x / y = sqrt (rpms ! 0 / rpms ! 3))"
proof -
  have h: "0 < w default_config" "0 < area default_config"
    by (simp_all add: default_config_def)
  from velocity_scales_with_altitude [OF h, of 0 3 1]
  show ?thesis using h by auto
qed

text \<open>
  C1, as the code has it. The sweep is evaluated as a whole array: for a valid
  configuration every altitude has 20 samples, not 19. The sample \<open>c_l = 0\<close> is kept and its
  velocity is \<open>+inf\<close>; the other 19 velocities are finite and positive, so every velocity
  is non-negative.
\<close>

theorem sweep_keeps_all_samples:
  assumes "valid_config cfg"
  shows "\<exists>res. compute cfg = Inr res \<and> length res = 4 \<and>
           (\<forall>k<4. length (fst (res ! k)) = 20 \<and> length (fst (snd (res ! k))) = 20 \<and>
                   length (snd (snd (res ! k))) = 20 \<and>
                   c_l ! 0 = Fin 0 \<and> fst (res ! k) ! 0 = PInf \<and>
                   (\<forall>i<20. np_le (Fin 0) (fst (res ! k) ! i)) \<and>
                   (\<forall>i. 1 \<le> i \<and> i < 20 \<longrightarrow> (\<exists>x. 0 < x \<and> fst (res ! k) ! i = Fin x)))"
proof -
  have wa: "0 < w cfg" "0 < area cfg" using assms by (simp_all add: valid_config_def)
  then have "area cfg \<noteq> 0" by simp
  then obtain res where r: "compute cfg = Inr res" "length res = 4"
    and v: "\<And>k. k < 4 \<Longrightarrow> fst (res ! k) = map (v_at cfg (rpms ! k)) c_l"
    and roc: "\<And>k. k < 4 \<Longrightarrow> fst (snd (res ! k)) =
        map (roc_at cfg (bhp cfg * 550 * density_ratios ! k) (rpms ! k)) c_l"
    and ca: "\<And>k. k < 4 \<Longrightarrow> snd (snd (res ! k)) =
        map (climb_angle_at cfg (bhp cfg * 550 * density_ratios ! k) (rpms ! k)) c_l"
    using compute_series [of cfg] by blast
  have main: "length (fst (res ! k)) = 20 \<and> length (fst (snd (res ! k))) = 20 \<and>
                   length (snd (snd (res ! k))) = 20 \<and>
                   c_l ! 0 = Fin 0 \<and> fst (res ! k) ! 0 = PInf \<and>
                   (\<forall>i<20. np_le (Fin 0) (fst (res ! k) ! i)) \<and>
                   (\<forall>i. 1 \<le> i \<and> i < 20 \<longrightarrow> (\<exists>x. 0 < x \<and> fst (res ! k) ! i = Fin x))"
    if k: "k < 4" for k
  proof -
    have d: "0 < rpms ! k" using k by (rule rpms_nth_pos)
    have q: "0 < w cfg / (5 / 10 * rpms ! k * area cfg)"
      using wa d by (rule half_density_area_pos)
    have z: "fst (res ! k) ! 0 = PInf"
      using wa d by (simp add: v [OF k] length_c_l c_l_nth' v_at_zero)
    have pos: "\<exists>x. 0 < x \<and> fst (res ! k) ! i = Fin x" if i: "1 \<le> i" "i < 20" for i
    proof -
      have c: "0 < real i * cl_step" using i cl_step_pos by simp
      have "fst (res ! k) ! i =
              Fin (sqrt (w cfg / (5 / 10 * rpms ! k * area cfg)) * (1 / sqrt (real i * cl_step)))"
        using wa d c i by (simp add: v [OF k] length_c_l c_l_nth' v_at_pos)
      moreover have "0 < sqrt (w cfg / (5 / 10 * rpms ! k * area cfg)) * (1 / sqrt (real i * cl_step))"
        using q c by simp
      ultimately show ?thesis by blast
    qed
    have nonneg: "np_le (Fin 0) (fst (res ! k) ! i)" if i: "i < 20" for i
    proof (cases "i = 0")
      case True
      then show ?thesis using z by simp
    next
      case False
      then have "1 \<le> i" by simp
      from pos [OF this i] obtain x where "0 < x" "fst (res ! k) ! i = Fin x" by blast
      then show ?thesis by simp
    qed
    show ?thesis
      using z pos nonneg by (simp add: v [OF k] roc [OF k] ca [OF k] length_c_l c_l_nth')
  qed
  show ?thesis using r main by blast
qed

theorem sweep_keeps_all_samples_witness:
  "valid_config default_config \<and>
   (\<exists>res. compute default_config = Inr res \<and> length res = 4 \<and>
      length (fst (res ! 0)) = 20 \<and> fst (res ! 0) ! 0 = PInf \<and>
      (\<exists>x. 0 < x \<and> fst (res ! 0) ! 1 = Fin x))"
proof -
  from sweep_keeps_all_samples [OF valid_default]
  obtain res where r: "compute default_config = Inr res" "length res = 4"
    and k: "\<forall>k<4. length (fst (res ! k)) = 20 \<and> length (fst (snd (res ! k))) = 20 \<and>
                   length (snd (snd (res ! k))) = 20 \<and>
                   c_l ! 0 = Fin 0 \<and> fst (res ! k) ! 0 = PInf \<and>
                   (\<forall>i<20. np_le (Fin 0) (fst (res ! k) ! i)) \<and>
                   (\<forall>i. 1 \<le> i \<and> i < 20 \<longrightarrow> (\<exists>x. 0 < x \<and> fst (res ! k) ! i = Fin x))"
    by blast
  from k have "length (fst (res ! 0)) = 20" "fst (res ! 0) ! 0 = PInf"
    "\<exists>x. 0 < x \<and> fst (res ! 0) ! 1 = Fin x"
    by simp_all
  then show ?thesis using r valid_default by blast
qed

text \<open>
  C1 as stated fails on the reference configuration: each altitude has 20 samples and the
  first velocity is \<open>+inf\<close>.
\<close>

theorem nineteen_points_counterexample:
  "valid_config default_config \<and> \<not> isl (compute default_config) \<and>
   map (length \<circ> fst) (projr (compute default_config)) = [20, 20, 20, 20] \<and>
   length (fst (projr (compute default_config) ! 0)) \<noteq> 19 \<and>
   c_l ! 0 = Fin 0 \<and>
   fst (projr (compute default_config) ! 0) ! 0 = PInf"
proof -
  have a: "area default_config \<noteq> 0" "0 < w default_config" "0 < area default_config"
    by (simp_all add: default_config_def)
  have "0 < density" by (simp add: density_def)
  then have "v_at default_config density (Fin 0) = PInf"
    using a by (simp add: v_at_zero)
  then show ?thesis
    using a(1) valid_default
    by (simp add: compute_Inr bands series_at_def length_c_l c_l_nth' nth_map)
qed

text \<open>
  C2, as the code has it. Nothing is validated. Whenever the wing area is not zero the
  callback solves all four altitudes and returns eight plots of 20 samples each, whatever
  the other seven values are.
\<close>

theorem no_validation:
  assumes "area cfg \<noteq> 0"
  shows "\<exists>res plots. compute cfg = Inr res \<and> length res = 4 \<and>
           (\<forall>k<4. length (fst (res ! k)) = 20 \<and> length (fst (snd (res ! k))) = 20 \<and>
                   length (snd (snd (res ! k))) = 20) \<and>
           update_output (Suc n) cfg = Inr (Div plots) \<and> length plots = 8"
proof -
  obtain res where r: "compute cfg = Inr res" "length res = 4"
    and s: "\<forall>k<4. fst (res ! k) = map (v_at cfg (rpms ! k)) c_l \<and>
       fst (snd (res ! k)) = map (roc_at cfg (bhp cfg * 550 * density_ratios ! k) (rpms ! k)) c_l \<and>
       snd (snd (res ! k)) =
         map (climb_angle_at cfg (bhp cfg * 550 * density_ratios ! k) (rpms ! k)) c_l"
    using compute_series [OF assms] by blast
  have l: "\<forall>k<4. length (fst (res ! k)) = 20 \<and> length (fst (snd (res ! k))) = 20 \<and>
                   length (snd (snd (res ! k))) = 20"
    using s by (simp add: length_c_l)
  obtain plots where p: "update_output (Suc n) cfg = Inr (Div plots)" "length plots = 8"
    using no_validation_aux [OF assms, of n] by blast
  show ?thesis using r l p by blast
qed

theorem no_validation_witness:
  "area (default_config\<lparr>w := 0\<rparr>) \<noteq> 0 \<and> w (default_config\<lparr>w := 0\<rparr>) = 0 \<and>
   (\<exists>res plots. compute (default_config\<lparr>w := 0\<rparr>) = Inr res \<and> length res = 4 \<and>
      update_output (Suc 0) (default_config\<lparr>w := 0\<rparr>) = Inr (Div plots) \<and> length plots = 8)"
proof -
  have a: "area (default_config\<lparr>w := 0\<rparr>) \<noteq> 0" by (simp add: default_config_def)
  from no_validation [OF a, of 0] show ?thesis using a by auto
qed

text \<open>
  C2 as stated fails at weight 0 (all other values as in the reference configuration): the
  configuration is invalid, yet nothing is raised and a complete result comes back.
\<close>

theorem zero_weight_counterexample:
  "\<not> valid_config (default_config\<lparr>w := 0\<rparr>) \<and>
   \<not> isl (compute (default_config\<lparr>w := 0\<rparr>)) \<and>
   \<not> isl (update_output 1 (default_config\<lparr>w := 0\<rparr>)) \<and>
   map (\<lambda>s. (length (fst s), length (fst (snd s)), length (snd (snd s))))
     (projr (compute (default_config\<lparr>w := 0\<rparr>)))
     = [(20, 20, 20), (20, 20, 20), (20, 20, 20), (20, 20, 20)]"
proof -
  have a: "area (default_config\<lparr>w := 0\<rparr>) \<noteq> 0" by (simp add: default_config_def)
  have "\<not> valid_config (default_config\<lparr>w := 0\<rparr>)" by (simp add: valid_config_def)
  moreover have "\<not> isl (update_output 1 (default_config\<lparr>w := 0\<rparr>))"
    using a by (simp add: update_output_def compute_Inr)
  ultimately show ?thesis using lengths_of_compute [OF a] by simp
qed

text \<open>
  C3. For a valid configuration nothing is raised: all four altitudes have 20 velocities,
  20 rates of climb and 20 climb angles, and the climb-angle plot of each altitude shows
  exactly that altitude's series. At every sample the climb angle is \<open>np.arcsin\<close> of the
  quotient \<open>roc / v\<close> of the same sample. A quotient that is a number of magnitude above 1
  gives NaN, which is how \<open>np.arcsin\<close> reports a value outside its domain and what a plot
  shows as a gap; a quotient that is a number of magnitude at most 1 gives its arcsine, so
  the other samples of the sweep and the other altitudes keep their values. The climb
  angle is NaN exactly when the quotient is not a number of magnitude at most 1 (which
  includes a quotient that is itself NaN, as at \<open>c_l = 0\<close>), and it is never infinite.
\<close>

theorem climb_angle_gap:
  assumes "valid_config cfg"
  shows "\<exists>res plots. compute cfg = Inr res \<and> length res = 4 \<and>
           update_output (Suc n) cfg = Inr (Div plots) \<and> length plots = 8 \<and>
           (\<forall>k<4. v_of cfg c_l (rpms ! k) = Inr (fst (res ! k)) \<and>
              length (fst (res ! k)) = 20 \<and> length (fst (snd (res ! k))) = 20 \<and>
              length (snd (snd (res ! k))) = 20 \<and>
              plots ! (2 * k + 1) =
                \<lparr>kind = ClimbAnglePlot, plot_index = k, altitude = altitudes ! k,
                 scatter_x = fst (res ! k), scatter_y = snd (snd (res ! k))\<rparr> \<and>
              (\<forall>i<20.
                 snd (snd (res ! k)) ! i
                   = np_arcsin (np_div (fst (snd (res ! k)) ! i) (fst (res ! k) ! i)) \<and>
                 (\<forall>r. np_div (fst (snd (res ! k)) ! i) (fst (res ! k) ! i) = Fin r \<and> 1 < \<bar>r\<bar>
                        \<longrightarrow> snd (snd (res ! k)) ! i = NaN) \<and>
                 (\<forall>r. np_div (fst (snd (res ! k)) ! i) (fst (res ! k) ! i) = Fin r \<and> \<bar>r\<bar> \<le> 1
                        \<longrightarrow> snd (snd (res ! k)) ! i = Fin (arcsin r)) \<and>
                 (\<forall>a. snd (snd (res ! k)) ! i = Fin a
                        \<longrightarrow> (\<exists>r. np_div (fst (snd (res ! k)) ! i) (fst (res ! k) ! i) = Fin r \<and>
                                 \<bar>r\<bar> \<le> 1 \<and> a = arcsin r)) \<and>
                 (snd (snd (res ! k)) ! i = NaN \<longleftrightarrow>
                    \<not> (\<exists>r. np_div (fst (snd (res ! k)) ! i) (fst (res ! k) ! i) = Fin r \<and>
                            \<bar>r\<bar> \<le> 1)) \<and>
                 snd (snd (res ! k)) ! i \<noteq> PInf \<and> snd (snd (res ! k)) ! i \<noteq> NInf))"
proof -
  have ne: "area cfg \<noteq> 0" using assms by (auto simp: valid_config_def)
  obtain res plots where r: "compute cfg = Inr res" "length res = 4"
    and p: "update_output (Suc n) cfg = Inr (Div plots)" "length plots = 8"
    and g: "\<forall>k<4. plots ! (2 * k) =
                \<lparr>kind = RocPlot, plot_index = k, altitude = altitudes ! k,
                 scatter_x = fst (res ! k), scatter_y = fst (snd (res ! k))\<rparr> \<and>
              plots ! (2 * k + 1) =
                \<lparr>kind = ClimbAnglePlot, plot_index = k, altitude = altitudes ! k,
                 scatter_x = fst (res ! k), scatter_y = snd (snd (res ! k))\<rparr>"
    using update_output_plots [OF ne, of n] by (elim exE conjE)
  obtain res' where r': "compute cfg = Inr res'"
    and s': "\<forall>k<4. fst (res' ! k) = map (v_at cfg (rpms ! k)) c_l \<and>
       fst (snd (res' ! k)) = map (roc_at cfg (bhp cfg * 550 * density_ratios ! k) (rpms ! k)) c_l \<and>
       snd (snd (res' ! k)) =
         map (climb_angle_at cfg (bhp cfg * 550 * density_ratios ! k) (rpms ! k)) c_l"
    using compute_series [OF ne] by (elim exE conjE)
  have "res' = res" using r r' by simp
  note s = s' [unfolded this]
  have main: "v_of cfg c_l (rpms ! k) = Inr (fst (res ! k)) \<and>
              length (fst (res ! k)) = 20 \<and> length (fst (snd (res ! k))) = 20 \<and>
              length (snd (snd (res ! k))) = 20 \<and>
              plots ! (2 * k + 1) =
                \<lparr>kind = ClimbAnglePlot, plot_index = k, altitude = altitudes ! k,
                 scatter_x = fst (res ! k), scatter_y = snd (snd (res ! k))\<rparr> \<and>
              (\<forall>i<20.
                 snd (snd (res ! k)) ! i
                   = np_arcsin (np_div (fst (snd (res ! k)) ! i) (fst (res ! k) ! i)) \<and>
                 (\<forall>r. np_div (fst (snd (res ! k)) ! i) (fst (res ! k) ! i) = Fin r \<and> 1 < \<bar>r\<bar>
                        \<longrightarrow> snd (snd (res ! k)) ! i = NaN) \<and>
                 (\<forall>r. np_div (fst (snd (res ! k)) ! i) (fst (res ! k) ! i) = Fin r \<and> \<bar>r\<bar> \<le> 1
                        \<longrightarrow> snd (snd (res ! k)) ! i = Fin (arcsin r)) \<and>
                 (\<forall>a. snd (snd (res ! k)) ! i = Fin a
                        \<longrightarrow> (\<exists>r. np_div (fst (snd (res ! k)) ! i) (fst (res ! k) ! i) = Fin r \<and>
                                 \<bar>r\<bar> \<le> 1 \<and> a = arcsin r)) \<and>
                 (snd (snd (res ! k)) ! i = NaN \<longleftrightarrow>
                    \<not> (\<exists>r. np_div (fst (snd (res ! k)) ! i) (fst (res ! k) ! i) = Fin r \<and>
                            \<bar>r\<bar> \<le> 1)) \<and>
                 snd (snd (res ! k)) ! i \<noteq> PInf \<and> snd (snd (res ! k)) ! i \<noteq> NInf)"
    if k: "k < 4" for k
  proof -
    have d: "rpms ! k \<noteq> 0" using rpms_nth_pos [OF k] by simp
    have v: "v_of cfg c_l (rpms ! k) = Inr (fst (res ! k))"
      using s k ne d by (simp add: v_of_Inr)
    have len: "length (fst (res ! k)) = 20" "length (fst (snd (res ! k))) = 20"
      "length (snd (snd (res ! k))) = 20"
      using s k by (simp_all add: length_c_l)
    have pl: "plots ! (2 * k + 1) =
                \<lparr>kind = ClimbAnglePlot, plot_index = k, altitude = altitudes ! k,
                 scatter_x = fst (res ! k), scatter_y = snd (snd (res ! k))\<rparr>"
      using g k by blast
    have ca: "snd (snd (res ! k)) ! i
                = np_arcsin (np_div (fst (snd (res ! k)) ! i) (fst (res ! k) ! i))"
      if "i < 20" for i
      using s k that by (simp add: length_c_l climb_angle_at_def)
    have smp: "snd (snd (res ! k)) ! i
                   = np_arcsin (np_div (fst (snd (res ! k)) ! i) (fst (res ! k) ! i)) \<and>
                 (\<forall>r. np_div (fst (snd (res ! k)) ! i) (fst (res ! k) ! i) = Fin r \<and> 1 < \<bar>r\<bar>
                        \<longrightarrow> snd (snd (res ! k)) ! i = NaN) \<and>
                 (\<forall>r. np_div (fst (snd (res ! k)) ! i) (fst (res ! k) ! i) = Fin r \<and> \<bar>r\<bar> \<le> 1
                        \<longrightarrow> snd (snd (res ! k)) ! i = Fin (arcsin r)) \<and>
                 (\<forall>a. snd (snd (res ! k)) ! i = Fin a
                        \<longrightarrow> (\<exists>r. np_div (fst (snd (res ! k)) ! i) (fst (res ! k) ! i) = Fin r \<and>
                                 \<bar>r\<bar> \<le> 1 \<and> a = arcsin r)) \<and>
                 (snd (snd (res ! k)) ! i = NaN \<longleftrightarrow>
                    \<not> (\<exists>r. np_div (fst (snd (res ! k)) ! i) (fst (res ! k) ! i) = Fin r \<and>
                            \<bar>r\<bar> \<le> 1)) \<and>
                 snd (snd (res ! k)) ! i \<noteq> PInf \<and> snd (snd (res ! k)) ! i \<noteq> NInf"
      if i: "i < 20" for i
      unfolding ca [OF i]
      using np_arcsin_Fin np_arcsin_NaN_iff np_arcsin_not_inf
      by (simp add: np_arcsin_gap np_arcsin_in_domain)
    show ?thesis using v len pl smp by blast
  qed
  show ?thesis using r p main by blast
qed

text \<open>
  With the default values at sea level the sample of index 1 has a quotient below -1 and a
  NaN climb angle, while the sample of index 19 of the same sweep has a quotient of
  magnitude at most 1 and its arcsine as climb angle.
\<close>

theorem climb_angle_gap_witness:
  "valid_config default_config \<and>
   (\<exists>res plots r r'. compute default_config = Inr res \<and>
      update_output (Suc 0) default_config = Inr (Div plots) \<and>
      np_div (fst (snd (res ! 0)) ! 1) (fst (res ! 0) ! 1) = Fin r \<and> 1 < \<bar>r\<bar> \<and>
      snd (snd (res ! 0)) ! 1 = NaN \<and>
      np_div (fst (snd (res ! 0)) ! 19) (fst (res ! 0) ! 19) = Fin r' \<and> \<bar>r'\<bar> \<le> 1 \<and>
      snd (snd (res ! 0)) ! 19 = Fin (arcsin r') \<and>
      scatter_y (plots ! 1) = snd (snd (res ! 0)))"
proof -
  obtain res plots where res: "compute default_config = Inr res"
    and plots: "update_output (Suc 0) default_config = Inr (Div plots)"
    and gap: "\<forall>k<4. v_of default_config c_l (rpms ! k) = Inr (fst (res ! k)) \<and>
              length (fst (res ! k)) = 20 \<and> length (fst (snd (res ! k))) = 20 \<and>
              length (snd (snd (res ! k))) = 20 \<and>
              plots ! (2 * k + 1) =
                \<lparr>kind = ClimbAnglePlot, plot_index = k, altitude = altitudes ! k,
                 scatter_x = fst (res ! k), scatter_y = snd (snd (res ! k))\<rparr> \<and>
              (\<forall>i<20.
                 snd (snd (res ! k)) ! i
                   = np_arcsin (np_div (fst (snd (res ! k)) ! i) (fst (res ! k) ! i)) \<and>
                 (\<forall>r. np_div (fst (snd (res ! k)) ! i) (fst (res ! k) ! i) = Fin r \<and> 1 < \<bar>r\<bar>
                        \<longrightarrow> snd (snd (res ! k)) ! i = NaN) \<and>
                 (\<forall>r. np_div (fst (snd (res ! k)) ! i) (fst (res ! k) ! i) = Fin r \<and> \<bar>r\<bar> \<le> 1
                        \<longrightarrow> snd (snd (res ! k)) ! i = Fin (arcsin r)) \<and>
                 (\<forall>a. snd (snd (res ! k)) ! i = Fin a
                        \<longrightarrow> (\<exists>r. np_div (fst (snd (res ! k)) ! i) (fst (res ! k) ! i) = Fin r \<and>
                                 \<bar>r\<bar> \<le> 1 \<and> a = arcsin r)) \<and>
                 (snd (snd (res ! k)) ! i = NaN \<longleftrightarrow>
                    \<not> (\<exists>r. np_div (fst (snd (res ! k)) ! i) (fst (res ! k) ! i) = Fin r \<and>
                            \<bar>r\<bar> \<le> 1)) \<and>
                 snd (snd (res ! k)) ! i \<noteq> PInf \<and> snd (snd (res ! k)) ! i \<noteq> NInf)"
    using climb_angle_gap [OF valid_default, of 0] by (elim exE conjE)
  obtain res' where res': "compute default_config = Inr res'"
    and s: "\<forall>k<4. fst (res' ! k) = map (v_at default_config (rpms ! k)) c_l \<and>
       fst (snd (res' ! k)) =
         map (roc_at default_config (bhp default_config * 550 * density_ratios ! k) (rpms ! k)) c_l \<and>
       snd (snd (res' ! k)) =
         map (climb_angle_at default_config (bhp default_config * 550 * density_ratios ! k)
                (rpms ! k)) c_l"
    using compute_series [OF default_nonzero(1)] by (elim exE conjE)
  have same: "res' = res" using res res' by simp
  have s0: "fst (res ! 0) ! 1 = v_at default_config density (c_l ! 1)"
    "fst (snd (res ! 0)) ! 1
       = roc_at default_config (bhp default_config * 550 * 1) density (c_l ! 1)"
    "fst (res ! 0) ! 19 = v_at default_config density (c_l ! 19)"
    "fst (snd (res ! 0)) ! 19
       = roc_at default_config (bhp default_config * 550 * 1) density (c_l ! 19)"
    using s [THEN spec, of 0] unfolding same by (simp_all add: band_0 length_c_l)
  obtain r where r: "np_div (fst (snd (res ! 0)) ! 1) (fst (res ! 0) ! 1) = Fin r" and lt: "r < - 1"
    using default_ratio_1 unfolding s0 by blast
  have abs: "1 < \<bar>r\<bar>" using lt by simp
  obtain r' where r': "np_div (fst (snd (res ! 0)) ! 19) (fst (res ! 0) ! 19) = Fin r'"
    and le: "\<bar>r'\<bar> \<le> 1"
    using default_ratio_19 unfolding s0 by blast
  have g: "(0::nat) < 4" "(1::nat) < 20" "(19::nat) < 20" by simp_all
  note band = gap [THEN spec, of 0, THEN mp, OF g(1)]
  note pl = band [THEN conjunct2, THEN conjunct2, THEN conjunct2, THEN conjunct2, THEN conjunct1]
  note smp = band [THEN conjunct2, THEN conjunct2, THEN conjunct2, THEN conjunct2, THEN conjunct2]
  note smp1 = smp [THEN spec, of 1, THEN mp, OF g(2)]
  note smp19 = smp [THEN spec, of 19, THEN mp, OF g(3)]
  have n1: "snd (snd (res ! 0)) ! 1 = NaN"
    using smp1 [THEN conjunct2, THEN conjunct1, THEN spec, of r] r abs by simp
  have n19: "snd (snd (res ! 0)) ! 19 = Fin (arcsin r')"
    using smp19 [THEN conjunct2, THEN conjunct2, THEN conjunct1, THEN spec, of r'] r' le by simp
  have p1: "scatter_y (plots ! 1) = snd (snd (res ! 0))" using pl by simp
  show ?thesis
    using valid_default res plots r abs n1 r' le n19 p1 by blast
qed

text \<open>
  C7. The bands are the four literal pairs of density and density ratio, in this order, and
  the altitudes are 0, 5000, 10000 and 15000 ft. Every call that raises nothing evaluates
  \<open>calculate_values\<close> once on each of the four, and the two plots of band \<open>k\<close> carry the
  altitude \<open>altitudes ! k\<close> and the series of that band. Within a band the density enters
  the velocity (line 114), the drag (line 115) and the power required (line 118); the
  drag coefficient and the advance ratio use neither the density nor the ratio; the density
  ratio enters only as the factor \<open>bhp * 550 * ratio\<close> of the power available (lines 119
  and 120), from which the rate of climb and the climb angle follow. The density ratio is a
  literal table of its own (it is not the quotient of the densities), and the velocity
  series is the function \<open>v_of\<close> of the density alone.
\<close>

theorem four_altitude_bands:
  "zip rpms density_ratios =
     [(2377 / 1000000, 1), (2048 / 1000000, 86159 / 100000),
      (1756 / 1000000, 738746 / 1000000), (1496 / 1000000, 62936 / 100000)]
   \<and> altitudes = [0, 5000, 10000, 15000]
   \<and> compute cfg =
       comprehension (\<lambda>(dens, ratio). calculate_values cfg c_l (bhp cfg * 550) dens ratio)
         (zip rpms density_ratios)
   \<and> (area cfg \<noteq> 0 \<longrightarrow>
        (\<exists>res plots. compute cfg = Inr res \<and> length res = 4 \<and>
           update_output (Suc n) cfg = Inr (Div plots) \<and> length plots = 8 \<and>
           map altitude plots = [0, 0, 5000, 5000, 10000, 10000, 15000, 15000] \<and>
           (\<forall>k<4.
              calculate_values cfg c_l (bhp cfg * 550) (rpms ! k) (density_ratios ! k)
                = Inr (res ! k) \<and>
              plots ! (2 * k) =
                \<lparr>kind = RocPlot, plot_index = k, altitude = altitudes ! k,
                 scatter_x = fst (res ! k), scatter_y = fst (snd (res ! k))\<rparr> \<and>
              plots ! (2 * k + 1) =
                \<lparr>kind = ClimbAnglePlot, plot_index = k, altitude = altitudes ! k,
                 scatter_x = fst (res ! k), scatter_y = snd (snd (res ! k))\<rparr> \<and>
              (\<exists>v p_req p_av.
                 v_of cfg c_l (rpms ! k) = Inr v \<and>
                 p_req_of cfg c_l (rpms ! k) (c_d_of cfg c_l) = Inr p_req \<and>
                 p_av_series cfg (rpms ! k) (density_ratios ! k) = Inr p_av \<and>
                 res ! k = (v, roc_of cfg p_av p_req, climb_angle_of (roc_of cfg p_av p_req) v) \<and>
                 (\<forall>i<20.
                    v ! i = np_mul (np_sqrt (Fin (w cfg / (5 / 10 * rpms ! k * area cfg))))
                              (np_div (Fin 1) (np_sqrt (c_l ! i))) \<and>
                    d_of cfg (rpms ! k) v ! i
                      = np_mul (Fin (5 / 10 * rpms ! k * area cfg)) (np_power (v ! i) 2) \<and>
                    c_d_of cfg c_l ! i
                      = np_add (Fin (c_d0 cfg))
                          (np_div (np_power (c_l ! i) 2) (Fin (314 / 100 * e0 cfg * AR cfg))) \<and>
                    p_req ! i
                      = np_mul (np_mul (Fin (w cfg))
                                  (np_sqrt (Fin (2 * w cfg / (area cfg * rpms ! k)))))
                          (np_div (c_d_of cfg c_l ! i) (np_pow_1_5 (c_l ! i))) \<and>
                    p_av ! i
                      = np_mul (Fin (bhp cfg * 550 * density_ratios ! k))
                          (prop_efficiency_at
                             (np_div (v ! i) (Fin (rpm cfg / 60 * prop_diameter cfg)))) \<and>
                    roc_of cfg p_av p_req ! i
                      = np_div (np_sub (p_av ! i) (p_req ! i)) (Fin (w cfg)) \<and>
                    climb_angle_of (roc_of cfg p_av p_req) v ! i
                      = np_arcsin (np_div (roc_of cfg p_av p_req ! i) (v ! i)))))))
   \<and> calculate_values cfg cl b dens ratio = calculate_values cfg cl (b * ratio) dens 1
   \<and> map_sum id fst (calculate_values cfg cl b dens ratio) = v_of cfg cl dens
   \<and> density_ratios \<noteq> map (\<lambda>d. d / density) rpms"
proof (intro conjI impI)
  show "zip rpms density_ratios =
     [(2377 / 1000000, 1), (2048 / 1000000, 86159 / 100000),
      (1756 / 1000000, 738746 / 1000000), (1496 / 1000000, 62936 / 100000)]"
    by (simp add: rpms_def density_ratios_def density_def density_5000ft_def
        density_10000ft_def density_15000ft_def)
  show "altitudes = [0, 5000, 10000, 15000]" by (simp add: altitudes_def)
  show "compute cfg =
       comprehension (\<lambda>(dens, ratio). calculate_values cfg c_l (bhp cfg * 550) dens ratio)
         (zip rpms density_ratios)"
    by (simp add: compute_def)
  show "calculate_values cfg cl b dens ratio = calculate_values cfg cl (b * ratio) dens 1"
    by (rule calculate_values_ratio)
  show "map_sum id fst (calculate_values cfg cl b dens ratio) = v_of cfg cl dens"
    by (rule calculate_values_velocity)
  show "density_ratios \<noteq> map (\<lambda>d. d / density) rpms" by (rule ratios_not_derived)
next
  assume ne: "area cfg \<noteq> 0"
  obtain res plots where r: "compute cfg = Inr res" "length res = 4"
    and p: "update_output (Suc n) cfg = Inr (Div plots)" "length plots = 8"
    and g: "\<forall>k<4. plots ! (2 * k) =
                \<lparr>kind = RocPlot, plot_index = k, altitude = altitudes ! k,
                 scatter_x = fst (res ! k), scatter_y = fst (snd (res ! k))\<rparr> \<and>
              plots ! (2 * k + 1) =
                \<lparr>kind = ClimbAnglePlot, plot_index = k, altitude = altitudes ! k,
                 scatter_x = fst (res ! k), scatter_y = snd (snd (res ! k))\<rparr>"
    using update_output_plots [OF ne, of n] by (elim exE conjE)
  obtain res' where r': "compute cfg = Inr res'"
    and c': "\<forall>k<4. calculate_values cfg c_l (bhp cfg * 550) (rpms ! k) (density_ratios ! k)
                     = Inr (res' ! k)"
    using compute_bands [OF ne] by (elim exE conjE)
  have "res' = res" using r r' by simp
  note c = c' [unfolded this]
  obtain plots' where p': "update_output (Suc n) cfg = Inr (Div plots')"
    and a': "map altitude plots' = [0, 0, 5000, 5000, 10000, 10000, 15000, 15000]"
    using plots_altitudes [OF ne, of n] by (elim exE conjE)
  have "plots' = plots" using p p' by simp
  note a = a' [unfolded this]
  have band: "calculate_values cfg c_l (bhp cfg * 550) (rpms ! k) (density_ratios ! k)
                = Inr (res ! k) \<and>
              plots ! (2 * k) =
                \<lparr>kind = RocPlot, plot_index = k, altitude = altitudes ! k,
                 scatter_x = fst (res ! k), scatter_y = fst (snd (res ! k))\<rparr> \<and>
              plots ! (2 * k + 1) =
                \<lparr>kind = ClimbAnglePlot, plot_index = k, altitude = altitudes ! k,
                 scatter_x = fst (res ! k), scatter_y = snd (snd (res ! k))\<rparr> \<and>
              (\<exists>v p_req p_av.
                 v_of cfg c_l (rpms ! k) = Inr v \<and>
                 p_req_of cfg c_l (rpms ! k) (c_d_of cfg c_l) = Inr p_req \<and>
                 p_av_series cfg (rpms ! k) (density_ratios ! k) = Inr p_av \<and>
                 res ! k = (v, roc_of cfg p_av p_req, climb_angle_of (roc_of cfg p_av p_req) v) \<and>
                 (\<forall>i<20.
                    v ! i = np_mul (np_sqrt (Fin (w cfg / (5 / 10 * rpms ! k * area cfg))))
                              (np_div (Fin 1) (np_sqrt (c_l ! i))) \<and>
                    d_of cfg (rpms ! k) v ! i
                      = np_mul (Fin (5 / 10 * rpms ! k * area cfg)) (np_power (v ! i) 2) \<and>
                    c_d_of cfg c_l ! i
                      = np_add (Fin (c_d0 cfg))
                          (np_div (np_power (c_l ! i) 2) (Fin (314 / 100 * e0 cfg * AR cfg))) \<and>
                    p_req ! i
                      = np_mul (np_mul (Fin (w cfg))
                                  (np_sqrt (Fin (2 * w cfg / (area cfg * rpms ! k)))))
                          (np_div (c_d_of cfg c_l ! i) (np_pow_1_5 (c_l ! i))) \<and>
                    p_av ! i
                      = np_mul (Fin (bhp cfg * 550 * density_ratios ! k))
                          (prop_efficiency_at
                             (np_div (v ! i) (Fin (rpm cfg / 60 * prop_diameter cfg)))) \<and>
                    roc_of cfg p_av p_req ! i
                      = np_div (np_sub (p_av ! i) (p_req ! i)) (Fin (w cfg)) \<and>
                    climb_angle_of (roc_of cfg p_av p_req) v ! i
                      = np_arcsin (np_div (roc_of cfg p_av p_req ! i) (v ! i))))"
    if k: "k < 4" for k
  proof -
    have ck: "calculate_values cfg c_l (bhp cfg * 550) (rpms ! k) (density_ratios ! k)
                = Inr (res ! k)"
      using c k by blast
    have eq: "res ! k = t"
      if "calculate_values cfg c_l (bhp cfg * 550) (rpms ! k) (density_ratios ! k) = Inr t" for t
      using ck that by simp
    show ?thesis
      using band_equations [OF ne k] g [THEN spec, of k, THEN mp, OF k] ck eq
      by (elim exE conjE) (intro conjI exI; assumption?; blast)
  qed
  show "\<exists>res plots. compute cfg = Inr res \<and> length res = 4 \<and>
           update_output (Suc n) cfg = Inr (Div plots) \<and> length plots = 8 \<and>
           map altitude plots = [0, 0, 5000, 5000, 10000, 10000, 15000, 15000] \<and>
           (\<forall>k<4.
              calculate_values cfg c_l (bhp cfg * 550) (rpms ! k) (density_ratios ! k)
                = Inr (res ! k) \<and>
              plots ! (2 * k) =
                \<lparr>kind = RocPlot, plot_index = k, altitude = altitudes ! k,
                 scatter_x = fst (res ! k), scatter_y = fst (snd (res ! k))\<rparr> \<and>
              plots ! (2 * k + 1) =
                \<lparr>kind = ClimbAnglePlot, plot_index = k, altitude = altitudes ! k,
                 scatter_x = fst (res ! k), scatter_y = snd (snd (res ! k))\<rparr> \<and>
              (\<exists>v p_req p_av.
                 v_of cfg c_l (rpms ! k) = Inr v \<and>
                 p_req_of cfg c_l (rpms ! k) (c_d_of cfg c_l) = Inr p_req \<and>
                 p_av_series cfg (rpms ! k) (density_ratios ! k) = Inr p_av \<and>
                 res ! k = (v, roc_of cfg p_av p_req, climb_angle_of (roc_of cfg p_av p_req) v) \<and>
                 (\<forall>i<20.
                    v ! i = np_mul (np_sqrt (Fin (w cfg / (5 / 10 * rpms ! k * area cfg))))
                              (np_div (Fin 1) (np_sqrt (c_l ! i))) \<and>
                    d_of cfg (rpms ! k) v ! i
                      = np_mul (Fin (5 / 10 * rpms ! k * area cfg)) (np_power (v ! i) 2) \<and>
                    c_d_of cfg c_l ! i
                      = np_add (Fin (c_d0 cfg))
                          (np_div (np_power (c_l ! i) 2) (Fin (314 / 100 * e0 cfg * AR cfg))) \<and>
                    p_req ! i
                      = np_mul (np_mul (Fin (w cfg))
                                  (np_sqrt (Fin (2 * w cfg / (area cfg * rpms ! k)))))
                          (np_div (c_d_of cfg c_l ! i) (np_pow_1_5 (c_l ! i))) \<and>
                    p_av ! i
                      = np_mul (Fin (bhp cfg * 550 * density_ratios ! k))
                          (prop_efficiency_at
                             (np_div (v ! i) (Fin (rpm cfg / 60 * prop_diameter cfg)))) \<and>
                    roc_of cfg p_av p_req ! i
                      = np_div (np_sub (p_av ! i) (p_req ! i)) (Fin (w cfg)) \<and>
                    climb_angle_of (roc_of cfg p_av p_req) v ! i
                      = np_arcsin (np_div (roc_of cfg p_av p_req ! i) (v ! i)))))"
    by (rule exI [of _ res], rule exI [of _ plots]) (intro r p a band conjI allI impI; assumption)
qed

theorem four_altitude_bands_witness:
  "area default_config \<noteq> 0 \<and>
   (\<exists>res plots v p_req p_av.
      compute default_config = Inr res \<and> length res = 4 \<and>
      update_output (Suc 0) default_config = Inr (Div plots) \<and> length plots = 8 \<and>
      calculate_values default_config c_l (bhp default_config * 550) (rpms ! 3) (density_ratios ! 3)
        = Inr (res ! 3) \<and>
      plots ! 6 = \<lparr>kind = RocPlot, plot_index = 3, altitude = 15000,
                    scatter_x = fst (res ! 3), scatter_y = fst (snd (res ! 3))\<rparr> \<and>
      plots ! 7 = \<lparr>kind = ClimbAnglePlot, plot_index = 3, altitude = 15000,
                    scatter_x = fst (res ! 3), scatter_y = snd (snd (res ! 3))\<rparr> \<and>
      res ! 3 = (v, roc_of default_config p_av p_req,
                 climb_angle_of (roc_of default_config p_av p_req) v) \<and>
      v ! 1 = np_mul (np_sqrt (Fin (2400 / (5 / 10 * (1496 / 1000000) * 170))))
                (np_div (Fin 1) (np_sqrt (c_l ! 1))) \<and>
      p_req ! 1 = np_mul (np_mul (Fin 2400) (np_sqrt (Fin (2 * 2400 / (170 * (1496 / 1000000))))))
                    (np_div (c_d_of default_config c_l ! 1) (np_pow_1_5 (c_l ! 1))) \<and>
      p_av ! 1 = np_mul (Fin (180 * 550 * (62936 / 100000)))
                   (prop_efficiency_at (np_div (v ! 1) (Fin (2700 / 60 * (73 / 12))))) \<and>
      roc_of default_config p_av p_req ! 1 = np_div (np_sub (p_av ! 1) (p_req ! 1)) (Fin 2400))"
proof -
  have a: "area default_config \<noteq> 0" by (simp add: default_config_def)
  note b = four_altitude_bands [of default_config 0, THEN conjunct2, THEN conjunct2,
      THEN conjunct2, THEN conjunct1, THEN mp, OF a]
  from b obtain res plots where r: "compute default_config = Inr res" "length res = 4"
    "update_output (Suc 0) default_config = Inr (Div plots)" "length plots = 8"
    and bands: "\<forall>k<4.
              calculate_values default_config c_l (bhp default_config * 550) (rpms ! k)
                (density_ratios ! k) = Inr (res ! k) \<and>
              plots ! (2 * k) =
                \<lparr>kind = RocPlot, plot_index = k, altitude = altitudes ! k,
                 scatter_x = fst (res ! k), scatter_y = fst (snd (res ! k))\<rparr> \<and>
              plots ! (2 * k + 1) =
                \<lparr>kind = ClimbAnglePlot, plot_index = k, altitude = altitudes ! k,
                 scatter_x = fst (res ! k), scatter_y = snd (snd (res ! k))\<rparr> \<and>
              (\<exists>v p_req p_av.
                 v_of default_config c_l (rpms ! k) = Inr v \<and>
                 p_req_of default_config c_l (rpms ! k) (c_d_of default_config c_l) = Inr p_req \<and>
                 p_av_series default_config (rpms ! k) (density_ratios ! k) = Inr p_av \<and>
                 res ! k = (v, roc_of default_config p_av p_req,
                            climb_angle_of (roc_of default_config p_av p_req) v) \<and>
                 (\<forall>i<20.
                    v ! i = np_mul (np_sqrt (Fin (w default_config /
                                                  (5 / 10 * rpms ! k * area default_config))))
                              (np_div (Fin 1) (np_sqrt (c_l ! i))) \<and>
                    d_of default_config (rpms ! k) v ! i
                      = np_mul (Fin (5 / 10 * rpms ! k * area default_config)) (np_power (v ! i) 2) \<and>
                    c_d_of default_config c_l ! i
                      = np_add (Fin (c_d0 default_config))
                          (np_div (np_power (c_l ! i) 2)
                             (Fin (314 / 100 * e0 default_config * AR default_config))) \<and>
                    p_req ! i
                      = np_mul (np_mul (Fin (w default_config))
                                  (np_sqrt (Fin (2 * w default_config /
                                                   (area default_config * rpms ! k)))))
                          (np_div (c_d_of default_config c_l ! i) (np_pow_1_5 (c_l ! i))) \<and>
                    p_av ! i
                      = np_mul (Fin (bhp default_config * 550 * density_ratios ! k))
                          (prop_efficiency_at
                             (np_div (v ! i)
                                (Fin (rpm default_config / 60 * prop_diameter default_config)))) \<and>
                    roc_of default_config p_av p_req ! i
                      = np_div (np_sub (p_av ! i) (p_req ! i)) (Fin (w default_config)) \<and>
                    climb_angle_of (roc_of default_config p_av p_req) v ! i
                      = np_arcsin (np_div (roc_of default_config p_av p_req ! i) (v ! i))))"
    by (elim exE conjE)
  have g: "(3::nat) < 4" "(1::nat) < 20" by simp_all
  note b3 = bands [THEN spec, of 3, THEN mp, OF g(1)]
  from b3 obtain v p_req p_av where
    c: "calculate_values default_config c_l (bhp default_config * 550) (rpms ! 3)
          (density_ratios ! 3) = Inr (res ! 3)"
    and p6: "plots ! (2 * 3) =
                \<lparr>kind = RocPlot, plot_index = 3, altitude = altitudes ! 3,
                 scatter_x = fst (res ! 3), scatter_y = fst (snd (res ! 3))\<rparr>"
    and p7: "plots ! (2 * 3 + 1) =
                \<lparr>kind = ClimbAnglePlot, plot_index = 3, altitude = altitudes ! 3,
                 scatter_x = fst (res ! 3), scatter_y = snd (snd (res ! 3))\<rparr>"
    and t: "res ! 3 = (v, roc_of default_config p_av p_req,
                        climb_angle_of (roc_of default_config p_av p_req) v)"
    and smp: "\<forall>i<20.
                    v ! i = np_mul (np_sqrt (Fin (w default_config /
                                                  (5 / 10 * rpms ! 3 * area default_config))))
                              (np_div (Fin 1) (np_sqrt (c_l ! i))) \<and>
                    d_of default_config (rpms ! 3) v ! i
                      = np_mul (Fin (5 / 10 * rpms ! 3 * area default_config)) (np_power (v ! i) 2) \<and>
                    c_d_of default_config c_l ! i
                      = np_add (Fin (c_d0 default_config))
                          (np_div (np_power (c_l ! i) 2)
                             (Fin (314 / 100 * e0 default_config * AR default_config))) \<and>
                    p_req ! i
                      = np_mul (np_mul (Fin (w default_config))
                                  (np_sqrt (Fin (2 * w default_config /
                                                   (area default_config * rpms ! 3)))))
                          (np_div (c_d_of default_config c_l ! i) (np_pow_1_5 (c_l ! i))) \<and>
                    p_av ! i
                      = np_mul (Fin (bhp default_config * 550 * density_ratios ! 3))
                          (prop_efficiency_at
                             (np_div (v ! i)
                                (Fin (rpm default_config / 60 * prop_diameter default_config)))) \<and>
                    roc_of default_config p_av p_req ! i
                      = np_div (np_sub (p_av ! i) (p_req ! i)) (Fin (w default_config)) \<and>
                    climb_angle_of (roc_of default_config p_av p_req) v ! i
                      = np_arcsin (np_div (roc_of default_config p_av p_req ! i) (v ! i))"
    by (elim exE conjE)
  note s1 = smp [THEN spec, of 1, THEN mp, OF g(2)]
  have k3: "rpms ! 3 = 1496 / 1000000" "density_ratios ! 3 = 62936 / 100000"
    "altitudes ! 3 = 15000"
    by (simp_all add: rpms_def density_15000ft_def density_ratios_def altitudes_def)
  have cf: "w default_config = 2400" "area default_config = 170" "bhp default_config = 180"
    "rpm default_config = 2700" "prop_diameter default_config = 73 / 12"
    by (simp_all add: default_config_def)
  have q6: "plots ! 6 = \<lparr>kind = RocPlot, plot_index = 3, altitude = 15000,
                    scatter_x = fst (res ! 3), scatter_y = fst (snd (res ! 3))\<rparr>"
    using p6 by (simp add: k3)
  have q7: "plots ! 7 = \<lparr>kind = ClimbAnglePlot, plot_index = 3, altitude = 15000,
                    scatter_x = fst (res ! 3), scatter_y = snd (snd (res ! 3))\<rparr>"
    using p7 by (simp add: k3)
  have e1: "v ! 1 = np_mul (np_sqrt (Fin (2400 / (5 / 10 * (1496 / 1000000) * 170))))
                (np_div (Fin 1) (np_sqrt (c_l ! 1)))"
    using s1 [THEN conjunct1] by (simp only: k3 cf)
  have e2: "p_req ! 1 = np_mul (np_mul (Fin 2400) (np_sqrt (Fin (2 * 2400 / (170 * (1496 / 1000000))))))
                    (np_div (c_d_of default_config c_l ! 1) (np_pow_1_5 (c_l ! 1)))"
    using s1 [THEN conjunct2, THEN conjunct2, THEN conjunct2, THEN conjunct1]
    by (simp only: k3 cf)
  have e3: "p_av ! 1 = np_mul (Fin (180 * 550 * (62936 / 100000)))
                   (prop_efficiency_at (np_div (v ! 1) (Fin (2700 / 60 * (73 / 12)))))"
    using s1 [THEN conjunct2, THEN conjunct2, THEN conjunct2, THEN conjunct2, THEN conjunct1]
    by (simp only: k3 cf)
  have e4: "roc_of default_config p_av p_req ! 1 = np_div (np_sub (p_av ! 1) (p_req ! 1)) (Fin 2400)"
    using s1 [THEN conjunct2, THEN conjunct2, THEN conjunct2, THEN conjunct2, THEN conjunct2,
              THEN conjunct1]
    by (simp only: cf)
  show ?thesis
    by (rule conjI [OF a], rule exI [of _ res], rule exI [of _ plots], rule exI [of _ v],
        rule exI [of _ p_req], rule exI [of _ p_av])
       (intro conjI r c q6 q7 t e1 e2 e3 e4)
qed

text \<open>
  C4. Doubling \<open>bhp\<close> doubles the power available at every sample whose propeller
  efficiency is a number, at every altitude. The quartic of line 117 is not clamped, so the
  efficiency can be negative: the doubled power is strictly greater exactly at the samples
  of positive efficiency and strictly smaller at those of negative efficiency.
\<close>

theorem doubling_rated_power:
  assumes "0 < bhp cfg" "k < 4" "i < 20"
    and "v_of cfg c_l (rpms ! k) = Inr v"
    and "prop_efficiency_of (J_of cfg v) ! i = Fin e"
  shows "\<exists>pa pa2 a. p_av_series cfg (rpms ! k) (density_ratios ! k) = Inr pa \<and>
           p_av_series (cfg\<lparr>bhp := 2 * bhp cfg\<rparr>) (rpms ! k) (density_ratios ! k) = Inr pa2 \<and>
           pa ! i = Fin a \<and> pa2 ! i = Fin (2 * a) \<and>
           (np_less (pa ! i) (pa2 ! i) \<longleftrightarrow> 0 < e) \<and>
           (np_less (pa2 ! i) (pa ! i) \<longleftrightarrow> e < 0)"
proof -
  let ?d = "rpms ! k" and ?r = "density_ratios ! k"
  let ?cfg2 = "cfg\<lparr>bhp := 2 * bhp cfg\<rparr>"
  from assms(4) have ne: "area cfg \<noteq> 0" "?d \<noteq> 0" and v: "v = map (v_at cfg ?d) c_l"
    by (simp_all add: v_of_Inr_iff)
  have e: "prop_efficiency_at (J_at cfg ?d (c_l ! i)) = Fin e"
    using assms(5) assms(3) unfolding v by (simp add: efficiency_nth)
  have s: "0 < bhp cfg * 550 * ?r"
    using assms(1) density_ratios_nth_pos [OF assms(2)] by simp
  let ?a = "bhp cfg * 550 * ?r * e"
  have 1: "p_av_series cfg ?d ?r = Inr (map (p_av_at cfg (bhp cfg * 550 * ?r) ?d) c_l)"
    using ne by (rule p_av_series_Inr)
  have 2: "p_av_series ?cfg2 ?d ?r = Inr (map (p_av_at cfg (2 * bhp cfg * 550 * ?r) ?d) c_l)"
    using ne by (simp add: p_av_series_Inr)
  have 3: "map (p_av_at cfg (bhp cfg * 550 * ?r) ?d) c_l ! i = Fin ?a"
    using assms(3) e by (simp add: length_c_l p_av_at_def)
  have 4: "map (p_av_at cfg (2 * bhp cfg * 550 * ?r) ?d) c_l ! i = Fin (2 * ?a)"
    using assms(3) e by (simp add: length_c_l p_av_at_def)
  have 5: "?a < 2 * ?a \<longleftrightarrow> 0 < e" using s by (rule double_less_iff)
  have 6: "2 * ?a < ?a \<longleftrightarrow> e < 0" using s by (rule double_greater_iff)
  let ?pa = "map (p_av_at cfg (bhp cfg * 550 * ?r) ?d) c_l"
  let ?pa2 = "map (p_av_at cfg (2 * bhp cfg * 550 * ?r) ?d) c_l"
  show ?thesis
  proof (intro exI conjI)
    show "p_av_series cfg ?d ?r = Inr ?pa" by (rule 1)
    show "p_av_series ?cfg2 ?d ?r = Inr ?pa2" by (rule 2)
    show "?pa ! i = Fin ?a" by (rule 3)
    show "?pa2 ! i = Fin (2 * ?a)" by (rule 4)
    show "np_less (?pa ! i) (?pa2 ! i) \<longleftrightarrow> 0 < e"
      unfolding 3 4 using 5 by (simp only: np_less.simps)
    show "np_less (?pa2 ! i) (?pa ! i) \<longleftrightarrow> e < 0"
      unfolding 3 4 using 6 by (simp only: np_less.simps)
  qed
qed

theorem doubling_rated_power_witness:
  "0 < bhp default_config \<and>
   (\<exists>pa pa2. p_av_series default_config (rpms ! 0) (density_ratios ! 0) = Inr pa \<and>
      p_av_series (default_config\<lparr>bhp := 2 * bhp default_config\<rparr>) (rpms ! 0) (density_ratios ! 0)
        = Inr pa2 \<and>
      np_less (pa ! 19) (pa2 ! 19))"
proof -
  obtain e where e: "prop_efficiency_at (J_at default_config density (c_l ! 19)) = Fin e"
    and pos: "1 / 2 \<le> e"
    using default_efficiency_19 by blast
  have b: "0 < bhp default_config" by (simp add: default_config_def)
  have v: "v_of default_config c_l (rpms ! 0) = Inr (map (v_at default_config density) c_l)"
    using default_nonzero by (simp add: band_0 v_of_Inr)
  have eff: "prop_efficiency_of (J_of default_config (map (v_at default_config density) c_l)) ! 19
               = Fin e"
    using e by (simp add: efficiency_nth)
  from doubling_rated_power [OF b _ _ v eff]
  obtain pa pa2 where "p_av_series default_config (rpms ! 0) (density_ratios ! 0) = Inr pa"
    "p_av_series (default_config\<lparr>bhp := 2 * bhp default_config\<rparr>) (rpms ! 0) (density_ratios ! 0)
       = Inr pa2"
    "np_less (pa ! 19) (pa2 ! 19) \<longleftrightarrow> 0 < e"
    by auto
  moreover have "0 < e" using pos by simp
  ultimately show ?thesis using b by blast
qed

text \<open>
  With the default values, at sea level, the sample of index 1 has an advance ratio above
  1.5 and an efficiency below -8, so doubling \<open>bhp\<close> lowers the power available there.
\<close>

theorem negative_efficiency_counterexample:
  "valid_config default_config \<and>
   np_less (projr (p_av_series (default_config\<lparr>bhp := 2 * bhp default_config\<rparr>) density 1) ! 1)
           (projr (p_av_series default_config density 1) ! 1) \<and>
   \<not> np_less (projr (p_av_series default_config density 1) ! 1)
             (projr (p_av_series (default_config\<lparr>bhp := 2 * bhp default_config\<rparr>) density 1) ! 1)"
proof -
  obtain e where e: "prop_efficiency_at (J_at default_config density (c_l ! 1)) = Fin e"
    and neg: "e \<le> - (81 / 10)"
    using default_efficiency_1 by blast
  have 1: "projr (p_av_series default_config density 1) ! 1 = Fin (99000 * e)"
    using default_nonzero e
    by (simp add: p_av_series_Inr length_c_l p_av_at_def) (simp add: default_config_def)
  have 2: "projr (p_av_series (default_config\<lparr>bhp := 2 * bhp default_config\<rparr>) density 1) ! 1
             = Fin (198000 * e)"
    using default_nonzero e
    by (simp add: p_av_series_Inr length_c_l p_av_at_def) (simp add: default_config_def)
  have "198000 * e < 99000 * e" using neg by simp
  then show ?thesis unfolding 1 2 using valid_default by simp
qed

text \<open>
  C8. For the default values at sea level the velocity of the sample of index 1,
  \<open>c_l = 1.3182 / 19\<close>, exceeds \<open>sqrt (2400 / (0.5 * 2.377e-3 * 170)) * (1 / sqrt 0.0694)\<close> by
  more than one and at most two ten-thousandths of that value: the two agree to a relative
  tolerance of \<open>2e-4\<close> and differ because 0.0694 is the rounded lift coefficient.
\<close>

theorem reference_velocity:
  "\<exists>res x r. compute default_config = Inr res \<and> c_l ! 1 = Fin (13182 / 10000 / 19) \<and>
     fst (res ! 0) ! 1 = Fin x \<and>
     r = sqrt (2400 / (5 / 10 * (2377 / 1000000) * 170)) * (1 / sqrt (694 / 10000)) \<and>
     0 < r \<and> 1 / 10000 * r < x - r \<and> x - r \<le> 2 / 10000 * r"
proof -
  define r where "r = sqrt (2400 / (5 / 10 * (2377 / 1000000) * 170)) * (1 / sqrt (694 / 10000))"
  define x where "x = sqrt ref_q * (1 / sqrt cl_step)"
  have q: "ref_q = 2400 / (5 / 10 * (2377 / 1000000) * 170)"
    by (simp add: ref_q_def default_config_def density_def)
  have r': "r = sqrt ref_q * (1 / sqrt (694 / 10000))" by (simp add: r_def q)
  have sq: "0 < sqrt ref_q" using ref_q_pos by simp
  have rpos: "0 < r" unfolding r' using sq by simp
  have "(10001 / 10000) * (1 / sqrt (694 / 10000)) < 1 / sqrt cl_step"
    by (rule sqrt_scale_lower) (simp_all add: cl_step_def power2_eq_square)
  then have "sqrt ref_q * ((10001 / 10000) * (1 / sqrt (694 / 10000)))
               < sqrt ref_q * (1 / sqrt cl_step)"
    using sq by (rule mult_strict_left_mono)
  then have "(10001 / 10000) * r < x" unfolding r' x_def by (simp only: mult.left_commute)
  then have lt: "1 / 10000 * r < x - r" by simp
  have "1 / sqrt cl_step \<le> (10002 / 10000) * (1 / sqrt (694 / 10000))"
    by (rule sqrt_scale_upper) (simp_all add: cl_step_def power2_eq_square)
  then have "sqrt ref_q * (1 / sqrt cl_step)
               \<le> sqrt ref_q * ((10002 / 10000) * (1 / sqrt (694 / 10000)))"
    using sq by (intro mult_left_mono) simp_all
  then have "x \<le> (10002 / 10000) * r" unfolding r' x_def by (simp only: mult.left_commute)
  then have up: "x - r \<le> 2 / 10000 * r" by simp
  obtain res where res: "compute default_config = Inr res"
    and v: "\<forall>k<4. fst (res ! k) = map (v_at default_config (rpms ! k)) c_l \<and>
       fst (snd (res ! k)) =
         map (roc_at default_config (bhp default_config * 550 * density_ratios ! k) (rpms ! k)) c_l \<and>
       snd (snd (res ! k)) =
         map (climb_angle_at default_config (bhp default_config * 550 * density_ratios ! k)
                (rpms ! k)) c_l"
    using compute_series [OF default_nonzero(1)] by blast
  have "fst (res ! 0) ! 1 = Fin x"
    using v cl_step_pos
    by (simp add: band_0 length_c_l c_l_nth' default_v_at x_def)
  moreover have "c_l ! 1 = Fin (13182 / 10000 / 19)" by (simp add: c_l_nth)
  ultimately show ?thesis using res rpos lt up r_def by blast
qed

end
